theory Spec2Isabelle
  imports Main "HOL-Library.AList"
begin

section \<open>Values, errors and the libraries the session calls\<close>

text \<open>
  JavaScript values as far as the session inspects them. An object is an association
  list of its own properties in insertion order.
\<close>

datatype json =
    JUndefined
  | JNull
  | JBool bool
  | JNum int
  | JStr string
  | JArr "json list"
  | JObj "(string \<times> json) list"

text \<open>
  The names of the properties that every plain object inherits from
  \<open>Object.prototype\<close>. The operator \<open>in\<close> and a property read \<open>obj[name]\<close> find them
  as well as the object's own properties.
\<close>

definition Object_prototype :: "string list" where
  "Object_prototype =
     [''constructor'', ''__defineGetter__'', ''__defineSetter__'', ''hasOwnProperty'',
      ''__lookupGetter__'', ''__lookupSetter__'', ''isPrototypeOf'', ''propertyIsEnumerable'',
      ''toString'', ''valueOf'', ''__proto__'', ''toLocaleString'']"

text \<open>\<open>name in obj\<close> for a plain object \<open>obj\<close> with the own properties \<open>kvs\<close>.\<close>

definition js_in :: "string \<Rightarrow> (string \<times> 'v) list \<Rightarrow> bool" where
  "js_in name kvs = (name \<in> set (map fst kvs) \<or> name \<in> set Object_prototype)"

text \<open>
  A value thrown by user code (a tool's \<open>execute\<close>, a loader, a completer). The catch
  block of the call-tool handler only asks whether it is an instance of \<open>UserError\<close>
  (then it reads \<open>error.message\<close>) or not (then it interpolates the value into a template
  string, which is the string carried by \<open>Exception\<close>).
\<close>

datatype thrown = UserError string | Exception string

datatype error_code = MethodNotFound | InvalidParams | InvalidRequest | InternalError

text \<open>
  What a request handler throws to the RPC layer, which turns it into a JSON-RPC error
  response. \<open>McpError\<close> carries a code, a message and the optional data;
  \<open>Uncaught\<close> is a value thrown by user code that the handler does not catch.
\<close>

datatype handler_error =
    McpError error_code string json
  | UnexpectedStateError string
  | ZodError string
  | Uncaught thrown

datatype validation = Issues string | Value json

text \<open>
  A tool's \<open>parameters\<close>: a Standard Schema object. The session only calls its
  \<open>~standard.validate\<close>; \<open>Issues\<close> carries \<open>JSON.stringify(parsed.issues)\<close>.
  \<open>schema_id\<close> tells schemas apart for \<open>toJsonSchema\<close>.
\<close>

record schema =
  schema_id :: nat
  validate :: "json \<Rightarrow> validation"

text \<open>
  Functions of the runtime and of third-party packages that the session calls and whose
  code is not part of the repository's sources. They are parameters of the model.
  \<^item> \<open>setTimeout_delay T\<close>: the number of milliseconds after which a timer created by
    \<open>setTimeout(f, T)\<close> fires;
  \<^item> \<open>is_base64\<close>: zod's \<open>z.string().base64()\<close> check;
  \<^item> \<open>zod_message v\<close>: the string conversion of the \<open>ZodError\<close> raised for the value \<open>v\<close>;
  \<^item> \<open>in_type_error v\<close>: the string conversion of the \<open>TypeError\<close> raised by
    \<open>"type" in v\<close> for a \<open>v\<close> that is not an object;
  \<^item> \<open>toJsonSchema\<close>: xsschema's conversion of a schema to JSON Schema;
  \<^item> \<open>fromUri t u\<close>: \<open>parseURITemplate(t).fromUri(u)\<close> of uri-templates, \<open>None\<close> for
    \<open>undefined\<close>; \<open>fillUri t m\<close>: \<open>parseURITemplate(t).fill(m)\<close>;
  \<^item> \<open>fuse_search xs v\<close>: the items of \<open>new Fuse(xs, {keys: ["value"]}).search(v)\<close>;
  \<^item> \<open>call_inherited name v\<close>: what \<open>await table[name](v)\<close> returns or throws when
    \<open>table[name]\<close> is not a property of the table itself but a member found on its
    prototype chain (\<open>toString\<close>, \<open>constructor\<close>, ...);
  \<^item> \<open>search_inherited name v\<close>: what the Fuse search over such a member, in place of
    a list of values, returns or throws;
  \<^item> \<open>function_member name\<close>, \<open>array_member xs name\<close>: whether a completer function,
    or the array \<open>xs\<close>, once it is the prototype of a table, gives the table a truthy
    member \<open>name\<close> that \<open>Object.prototype\<close> does not have (\<open>length\<close>, \<open>call\<close>,
    \<open>map\<close>, ...).
\<close>

record libs =
  setTimeout_delay :: "nat \<Rightarrow> nat"
  is_base64 :: "string \<Rightarrow> bool"
  zod_message :: "json \<Rightarrow> string"
  in_type_error :: "json \<Rightarrow> string"
  toJsonSchema :: "schema \<Rightarrow> json"
  fromUri :: "string \<Rightarrow> string \<Rightarrow> (string \<times> json) list option"
  fillUri :: "string \<Rightarrow> (string \<times> json) list \<Rightarrow> string"
  fuse_search :: "string list \<Rightarrow> string \<Rightarrow> string list"
  call_inherited :: "string \<Rightarrow> string \<Rightarrow> thrown + json"
  search_inherited :: "string \<Rightarrow> string \<Rightarrow> thrown + json"
  function_member :: "string \<Rightarrow> bool"
  array_member :: "string list \<Rightarrow> string \<Rightarrow> bool"

section \<open>Tool results\<close>

datatype content =
    TextContent string
  | ImageContent string string
  | AudioContent string string

record content_result =
  content :: "content list"
  isError :: "bool option"

definition has_key :: "string \<Rightarrow> (string \<times> json) list \<Rightarrow> bool" where
  "has_key k kvs = (k \<in> set (map fst kvs))"

definition only_keys :: "string list \<Rightarrow> (string \<times> json) list \<Rightarrow> bool" where
  "only_keys ks kvs = list_all (\<lambda>k. k \<in> set ks) (map fst kvs)"

text \<open>
  \<open>ContentZodSchema\<close>: a union discriminated by \<open>type\<close> of three strict objects, one
  for text, one for an image and one for audio.
\<close>

definition parse_content :: "libs \<Rightarrow> json \<Rightarrow> content option" where
  "parse_content L v =
     (case v of
        JObj kvs \<Rightarrow>
          (case map_of kvs ''type'' of
             Some (JStr ty) \<Rightarrow>
               if ty = ''text'' then
                 (case map_of kvs ''text'' of
                    Some (JStr s) \<Rightarrow>
                      if only_keys [''text'', ''type''] kvs then Some (TextContent s) else None
                  | _ \<Rightarrow> None)
               else if ty = ''image'' \<or> ty = ''audio'' then
                 (case (map_of kvs ''data'', map_of kvs ''mimeType'') of
                    (Some (JStr d), Some (JStr m)) \<Rightarrow>
                      if is_base64 L d \<and> only_keys [''data'', ''mimeType'', ''type''] kvs
                      then Some (if ty = ''image'' then ImageContent d m else AudioContent d m)
                      else None
                  | _ \<Rightarrow> None)
               else None
           | _ \<Rightarrow> None)
      | _ \<Rightarrow> None)"

fun parse_contents :: "libs \<Rightarrow> json list \<Rightarrow> content list option" where
  "parse_contents L [] = Some []"
| "parse_contents L (v # vs) =
     (case parse_content L v of
        None \<Rightarrow> None
      | Some c \<Rightarrow> (case parse_contents L vs of None \<Rightarrow> None | Some cs \<Rightarrow> Some (c # cs)))"

text \<open>
  \<open>ContentResultZodSchema.parse\<close>: a strict object with a \<open>content\<close> array and an
  optional boolean \<open>isError\<close>; a rejected value raises a \<open>ZodError\<close>.
\<close>

definition ContentResultZodSchema_parse :: "libs \<Rightarrow> json \<Rightarrow> thrown + content_result" where
  "ContentResultZodSchema_parse L v =
     (case v of
        JObj kvs \<Rightarrow>
          (case map_of kvs ''content'' of
             Some (JArr items) \<Rightarrow>
               (case parse_contents L items of
                  Some cs \<Rightarrow>
                    if \<not> only_keys [''content'', ''isError''] kvs
                    then Inl (Exception (zod_message L v))
                    else (case map_of kvs ''isError'' of
                            None \<Rightarrow> Inr \<lparr>content = cs, isError = None\<rparr>
                          | Some JUndefined \<Rightarrow> Inr \<lparr>content = cs, isError = None\<rparr>
                          | Some (JBool b) \<Rightarrow> Inr \<lparr>content = cs, isError = Some b\<rparr>
                          | Some _ \<Rightarrow> Inl (Exception (zod_message L v)))
                | None \<Rightarrow> Inl (Exception (zod_message L v)))
           | _ \<Rightarrow> Inl (Exception (zod_message L v)))
      | _ \<Rightarrow> Inl (Exception (zod_message L v)))"

text \<open>
  The three-way normalisation of what \<open>execute\<close> returned: a string, a value with a
  \<open>type\<close> property, anything else. \<open>"type" in v\<close> raises a \<open>TypeError\<close> when \<open>v\<close>
  is not an object.
\<close>

definition normalize_result :: "libs \<Rightarrow> json \<Rightarrow> thrown + content_result" where
  "normalize_result L v =
     (case v of
        JStr s \<Rightarrow>
          ContentResultZodSchema_parse L
            (JObj [(''content'', JArr [JObj [(''text'', JStr s), (''type'', JStr ''text'')]])])
      | JObj kvs \<Rightarrow>
          if has_key ''type'' kvs
          then ContentResultZodSchema_parse L (JObj [(''content'', JArr [v])])
          else ContentResultZodSchema_parse L v
      | JArr vs \<Rightarrow> ContentResultZodSchema_parse L v
      | _ \<Rightarrow> Inl (Exception (in_type_error L v)))"

section \<open>Tools and their execution\<close>

datatype logging_level =
  Alert | Critical | Debug | Emergency | Error | Info | Notice | Warning

text \<open>
  What the tool's code does with the context it is given: a call of
  \<open>reportProgress(progress)\<close> or of one of \<open>log.debug\<close>, \<open>log.error\<close>,
  \<open>log.info\<close>, \<open>log.warn\<close> with a message and a context.
\<close>

datatype emission =
    ReportProgress "(string \<times> json) list"
  | LogDebug string json
  | LogError string json
  | LogInfo string json
  | LogWarn string json

datatype outcome = Returns json | Throws thrown

text \<open>
  One invocation of \<open>execute\<close>, as the handler can observe it: the calls it makes on the
  context, each with the number of milliseconds after the invocation at which it is
  made, and the time and value with which the returned promise settles (\<open>None\<close> when it
  never settles). A function that throws synchronously settles at 0.
\<close>

record execution =
  emits :: "(nat \<times> emission) list"
  settles :: "(nat \<times> outcome) option"

record tool =
  annotations :: json
  tool_description :: json
  execute :: "json \<Rightarrow> json \<Rightarrow> execution"
  tool_name :: string
  parameters :: "schema option"
  timeoutMs :: "nat option"

text \<open>What the session sends through \<open>this.#server\<close> on behalf of the tool.\<close>

datatype server_call =
    Notification string "(string \<times> json) list"
  | SendLoggingMessage logging_level string json

record call_tool_request =
  req_name :: string
  req_arguments :: json
  req_progressToken :: json

text \<open>
  What one call-tool request leads to: the handler's answer (\<open>None\<close> when the handler
  never returns), the time at which it answers, the argument values with which
  \<open>execute\<close> was invoked, and everything sent to the client on behalf of the tool's
  code, with the time of each.
\<close>

record call_tool_run =
  response :: "(handler_error + content_result) option"
  responded_at :: "nat option"
  invoked_with :: "json list"
  sent :: "(nat \<times> server_call) list"

definition digit_char :: "nat \<Rightarrow> char" where
  "digit_char d = ''0123456789'' ! d"

function show_nat :: "nat \<Rightarrow> string" where
  "show_nat n = (if n < 10 then [digit_char n] else show_nat (n div 10) @ [digit_char (n mod 10)])"
  by pat_completeness auto
termination
  by (relation "measure id") auto

declare show_nat.simps [simp del]

definition timeout_message :: "nat \<Rightarrow> string" where
  "timeout_message T = ''Tool execution timed out after '' @ show_nat T @ ''ms''"

text \<open>
  \<open>Promise.race([executeToolPromise, timer])\<close> when \<open>tool.timeoutMs\<close> is truthy, the
  bare \<open>executeToolPromise\<close> otherwise (\<open>undefined\<close> and \<open>0\<close> are falsy). The race
  settles as the first of the two does; \<open>execute\<close> was invoked before the timer was
  created, so it is given the tie.
\<close>

definition await_execution :: "libs \<Rightarrow> nat option \<Rightarrow> execution \<Rightarrow> (nat \<times> outcome) option" where
  "await_execution L tmo ex =
     (case tmo of
        None \<Rightarrow> settles ex
      | Some T \<Rightarrow>
          if T = 0 then settles ex
          else (case settles ex of
                  None \<Rightarrow> Some (setTimeout_delay L T, Throws (UserError (timeout_message T)))
                | Some (d, out) \<Rightarrow>
                    if d \<le> setTimeout_delay L T then Some (d, out)
                    else Some (setTimeout_delay L T, Throws (UserError (timeout_message T)))))"

text \<open>The \<open>reportProgress\<close> and \<open>log\<close> closures built by the handler.\<close>

definition forward :: "json \<Rightarrow> emission \<Rightarrow> server_call" where
  "forward progressToken e =
     (case e of
        ReportProgress progress \<Rightarrow>
          Notification ''notifications/progress''
            (AList.update ''progressToken'' progressToken progress)
      | LogDebug m c \<Rightarrow> SendLoggingMessage Debug m c
      | LogError m c \<Rightarrow> SendLoggingMessage Error m c
      | LogInfo m c \<Rightarrow> SendLoggingMessage Info m c
      | LogWarn m c \<Rightarrow> SendLoggingMessage Warning m c)"

definition error_result :: "string \<Rightarrow> content_result" where
  "error_result t = \<lparr>content = [TextContent t], isError = Some True\<rparr>"

text \<open>The \<open>catch (error)\<close> block of the call-tool handler.\<close>

definition catch_tool_error :: "thrown \<Rightarrow> content_result" where
  "catch_tool_error e =
     (case e of
        UserError message \<Rightarrow> error_result message
      | Exception str \<Rightarrow> error_result (''Error: '' @ str))"

text \<open>The argument value handed to \<open>execute\<close>: \<open>undefined\<close> unless the tool has parameters.\<close>

definition tool_args :: "tool \<Rightarrow> call_tool_request \<Rightarrow> handler_error + json" where
  "tool_args t req =
     (case parameters t of
        None \<Rightarrow> Inr JUndefined
      | Some sch \<Rightarrow>
          (case validate sch (req_arguments req) of
             Issues issues \<Rightarrow>
               Inl (McpError InvalidParams
                     (''Invalid '' @ req_name req @ '' parameters: '' @ issues) JUndefined)
           | Value v \<Rightarrow> Inr v))"

definition rejected :: "handler_error \<Rightarrow> call_tool_run" where
  "rejected e = \<lparr>response = Some (Inl e), responded_at = Some 0, invoked_with = [], sent = []\<rparr>"

text \<open>The handler registered for \<open>CallToolRequestSchema\<close> by \<open>setupToolHandlers\<close>.\<close>

definition callTool :: "libs \<Rightarrow> json \<Rightarrow> tool list \<Rightarrow> call_tool_request \<Rightarrow> call_tool_run" where
  "callTool L auth tools req =
     (case find (\<lambda>t. tool_name t = req_name req) tools of
        None \<Rightarrow> rejected (McpError MethodNotFound (''Unknown tool: '' @ req_name req) JUndefined)
      | Some t \<Rightarrow>
          (case tool_args t req of
             Inl e \<Rightarrow> rejected e
           | Inr args \<Rightarrow>
               let ex = execute t args auth;
                   msgs = map (\<lambda>(at, e). (at, forward (req_progressToken req) e)) (emits ex)
               in (case await_execution L (timeoutMs t) ex of
                     None \<Rightarrow>
                       \<lparr>response = None, responded_at = None,
                        invoked_with = [args], sent = msgs\<rparr>
                   | Some (at, Throws e) \<Rightarrow>
                       \<lparr>response = Some (Inr (catch_tool_error e)), responded_at = Some at,
                        invoked_with = [args], sent = msgs\<rparr>
                   | Some (at, Returns v) \<Rightarrow>
                       \<lparr>response =
                          Some (Inr (case normalize_result L v of
                                       Inl e \<Rightarrow> catch_tool_error e
                                     | Inr r \<Rightarrow> r)),
                        responded_at = Some at, invoked_with = [args], sent = msgs\<rparr>)))"

section \<open>Listing tools\<close>

record tool_listing =
  listed_annotations :: json
  listed_description :: json
  listed_inputSchema :: json
  listed_name :: string

text \<open>The schema reported for a tool without \<open>parameters\<close>.\<close>

definition empty_object_schema :: json where
  "empty_object_schema =
     JObj [(''additionalProperties'', JBool False), (''properties'', JObj []),
           (''type'', JStr ''object'')]"

text \<open>The handler registered for \<open>ListToolsRequestSchema\<close>.\<close>

definition listTools :: "libs \<Rightarrow> tool list \<Rightarrow> tool_listing list" where
  "listTools L tools =
     map (\<lambda>t. \<lparr>listed_annotations = annotations t,
                listed_description = tool_description t,
                listed_inputSchema =
                  (case parameters t of
                     Some sch \<Rightarrow> toJsonSchema L sch
                   | None \<Rightarrow> empty_object_schema),
                listed_name = tool_name t\<rparr>) tools"

text \<open>
  What a JSON Schema built from the keywords \<open>type\<close>, \<open>properties\<close> and
  \<open>additionalProperties\<close> accepts, following the JSON Schema specification: \<open>type\<close>
  constrains the kind of the value; for an object, each property named in \<open>properties\<close>
  must satisfy the schema given there, and each other property must satisfy
  \<open>additionalProperties\<close> (the schema \<open>false\<close> rejects everything, an absent keyword
  accepts everything). Other keywords are not interpreted.
\<close>

definition has_json_type :: "string \<Rightarrow> json \<Rightarrow> bool" where
  "has_json_type ty v =
     (case v of
        JObj _ \<Rightarrow> ty = ''object''
      | JArr _ \<Rightarrow> ty = ''array''
      | JStr _ \<Rightarrow> ty = ''string''
      | JNum _ \<Rightarrow> ty = ''number'' \<or> ty = ''integer''
      | JBool _ \<Rightarrow> ty = ''boolean''
      | JNull \<Rightarrow> ty = ''null''
      | JUndefined \<Rightarrow> False)"

definition schema_properties :: "(string \<times> json) list \<Rightarrow> (string \<times> json) list" where
  "schema_properties sch =
     (case map_of sch ''properties'' of Some (JObj ps) \<Rightarrow> ps | _ \<Rightarrow> [])"

lemma size_map_of_json:
  "map_of kvs k = Some (v::json) \<Longrightarrow> size v < Suc (size_list (size_prod (\<lambda>_. 0) size) kvs)"
  by (induction kvs) (auto split: if_splits)

lemma size_schema_properties:
  "map_of (schema_properties sch) k = Some (s::json) \<Longrightarrow>
     size s < Suc (size_list (size_prod (\<lambda>_. 0) size) sch)"
proof -
  assume a: "map_of (schema_properties sch) k = Some s"
  then obtain ps where ps: "map_of sch ''properties'' = Some (JObj ps)" and s: "map_of ps k = Some s"
    by (auto simp: schema_properties_def split: option.splits json.splits)
  from size_map_of_json [OF s] size_map_of_json [OF ps] show ?thesis by simp
qed

function schema_accepts :: "json \<Rightarrow> json \<Rightarrow> bool" where
  "schema_accepts sch v =
     (case sch of
        JBool b \<Rightarrow> b
      | JObj kws \<Rightarrow>
          (case map_of kws ''type'' of
             Some (JStr ty) \<Rightarrow> has_json_type ty v
           | _ \<Rightarrow> True) \<and>
          (case v of
             JObj kvs \<Rightarrow>
               list_all
                 (\<lambda>(k, x).
                    case map_of (schema_properties kws) k of
                      Some s \<Rightarrow> schema_accepts s x
                    | None \<Rightarrow>
                        (case map_of kws ''additionalProperties'' of
                           Some a \<Rightarrow> schema_accepts a x
                         | None \<Rightarrow> True))
                 kvs
           | _ \<Rightarrow> True)
      | _ \<Rightarrow> True)"
  by pat_completeness auto
termination
  by (relation "measure (\<lambda>(sch, v). size sch)")
     (auto dest: size_schema_properties size_map_of_json)

declare schema_accepts.simps [simp del]

section \<open>Prompts and completion\<close>

record completion =
  hasMore :: "bool option"
  total :: "int option"
  completion_values :: "string list"

text \<open>
  A completer is user code: it returns some value, which the handler validates
  afterwards, or throws.
\<close>

type_synonym ArgumentValueCompleter = "string \<Rightarrow> thrown + json"

record prompt_argument =
  arg_complete :: "ArgumentValueCompleter option"
  arg_description :: json
  arg_enum :: "string list option"
  arg_name :: string
  arg_required :: bool

text \<open>
  A prompt. \<open>prompt_arguments\<close> is \<open>None\<close> when the prompt declares no \<open>arguments\<close>;
  \<open>prompt_complete\<close> is \<open>None\<close> on a prompt as the caller registers it and is set by
  \<open>addPrompt\<close>; \<open>prompt_load\<close> takes the request's \<open>arguments\<close> (\<open>None\<close> when the
  request has none) and returns the string or throws.
\<close>

record prompt =
  prompt_arguments :: "prompt_argument list option"
  prompt_complete :: "(string \<Rightarrow> string \<Rightarrow> thrown + json) option"
  prompt_description :: json
  prompt_load :: "(string \<times> string) list option \<Rightarrow> thrown + string"
  prompt_name :: string

definition arguments_of :: "prompt \<Rightarrow> prompt_argument list" where
  "arguments_of p = (case prompt_arguments p of None \<Rightarrow> [] | Some as \<Rightarrow> as)"

text \<open>
  The two tables filled by the loop of \<open>addPrompt\<close>, \<open>completers\<close> and \<open>enums\<close>.
  Both start as the object literal \<open>{}\<close>, and \<open>table[argument.name] = value\<close> is
  executed for each argument in turn, so a later argument of the same name overwrites.
  The map holds what was assigned under each name. For every name but \<open>__proto__\<close>
  that is an own property of the table; assigning under \<open>__proto__\<close> makes the value
  the prototype of the table instead, and reading \<open>__proto__\<close> gives it back.
\<close>

definition completers :: "prompt_argument list \<Rightarrow> string \<rightharpoonup> ArgumentValueCompleter" where
  "completers as =
     fold (\<lambda>a m. case arg_complete a of Some c \<Rightarrow> m(arg_name a \<mapsto> c) | None \<Rightarrow> m) as Map.empty"

definition enums :: "prompt_argument list \<Rightarrow> string \<rightharpoonup> string list" where
  "enums as =
     fold (\<lambda>a m. case arg_enum a of Some vs \<Rightarrow> m(arg_name a \<mapsto> vs) | None \<Rightarrow> m) as Map.empty"

text \<open>
  What the read \<open>table[name]\<close> finds: the value assigned under the name; or, without
  one, a member inherited from \<open>Object.prototype\<close> or from the value that was made the
  prototype (all of them truthy); or \<open>undefined\<close>.
\<close>

datatype 'v slot = Own 'v | Inherited | Absent

definition slot_of :: "(string \<rightharpoonup> 'v) \<Rightarrow> ('v \<Rightarrow> string \<Rightarrow> bool) \<Rightarrow> string \<Rightarrow> 'v slot" where
  "slot_of table members name =
     (case table name of
        Some v \<Rightarrow> Own v
      | None \<Rightarrow>
          if name \<in> set Object_prototype then Inherited
          else (case table ''__proto__'' of
                  Some prototype \<Rightarrow> if members prototype name then Inherited else Absent
                | None \<Rightarrow> Absent))"

text \<open>
  The \<open>complete\<close> function that \<open>addPrompt\<close> attaches to every prompt:
  \<open>if (completers[name])\<close> call it, \<open>if (enums[name])\<close> search it with Fuse, else
  return \<open>{values: []}\<close>.
\<close>

definition complete_argument ::
  "libs \<Rightarrow> prompt_argument list \<Rightarrow> string \<Rightarrow> string \<Rightarrow> thrown + json" where
  "complete_argument L as nm val =
     (case slot_of (completers as) (\<lambda>c. function_member L) nm of
        Own c \<Rightarrow> c val
      | Inherited \<Rightarrow> call_inherited L nm val
      | Absent \<Rightarrow>
          (case slot_of (enums as) (array_member L) nm of
             Own vs \<Rightarrow>
               let result = fuse_search L vs val
               in Inr (JObj [(''total'', JNum (int (length result))),
                             (''values'', JArr (map JStr result))])
           | Inherited \<Rightarrow> search_inherited L nm val
           | Absent \<Rightarrow> Inr (JObj [(''values'', JArr [])])))"

text \<open>The prompt that \<open>addPrompt\<close> stores: \<open>{...inputPrompt, complete}\<close>.\<close>

definition with_complete :: "libs \<Rightarrow> prompt \<Rightarrow> prompt" where
  "with_complete L inputPrompt =
     inputPrompt\<lparr>prompt_complete := Some (complete_argument L (arguments_of inputPrompt))\<rparr>"

definition addPrompt :: "libs \<Rightarrow> prompt \<Rightarrow> prompt list \<Rightarrow> prompt list" where
  "addPrompt L inputPrompt ps = ps @ [with_complete L inputPrompt]"

fun strings_of :: "json list \<Rightarrow> string list option" where
  "strings_of [] = Some []"
| "strings_of (JStr x # vs) = (case strings_of vs of None \<Rightarrow> None | Some xs \<Rightarrow> Some (x # xs))"
| "strings_of (v # vs) = None"

text \<open>
  \<open>CompletionZodSchema.parse\<close>: an object with an optional boolean \<open>hasMore\<close>, an
  optional integer \<open>total\<close> and an array \<open>values\<close> of at most 100 strings; other
  properties are dropped, and a rejected value raises a \<open>ZodError\<close>.
\<close>

definition CompletionZodSchema_parse :: "libs \<Rightarrow> json \<Rightarrow> handler_error + completion" where
  "CompletionZodSchema_parse L v =
     (case v of
        JObj kvs \<Rightarrow>
          (case map_of kvs ''values'' of
             Some (JArr items) \<Rightarrow>
               (case strings_of items of
                  Some xs \<Rightarrow>
                    if 100 < length xs then Inl (ZodError (zod_message L v))
                    else
                      (case (map_of kvs ''hasMore'', map_of kvs ''total'') of
                         (None, None) \<Rightarrow>
                           Inr \<lparr>hasMore = None, total = None, completion_values = xs\<rparr>
                       | (None, Some JUndefined) \<Rightarrow>
                           Inr \<lparr>hasMore = None, total = None, completion_values = xs\<rparr>
                       | (None, Some (JNum n)) \<Rightarrow>
                           Inr \<lparr>hasMore = None, total = Some n, completion_values = xs\<rparr>
                       | (Some JUndefined, None) \<Rightarrow>
                           Inr \<lparr>hasMore = None, total = None, completion_values = xs\<rparr>
                       | (Some JUndefined, Some JUndefined) \<Rightarrow>
                           Inr \<lparr>hasMore = None, total = None, completion_values = xs\<rparr>
                       | (Some JUndefined, Some (JNum n)) \<Rightarrow>
                           Inr \<lparr>hasMore = None, total = Some n, completion_values = xs\<rparr>
                       | (Some (JBool b), None) \<Rightarrow>
                           Inr \<lparr>hasMore = Some b, total = None, completion_values = xs\<rparr>
                       | (Some (JBool b), Some JUndefined) \<Rightarrow>
                           Inr \<lparr>hasMore = Some b, total = None, completion_values = xs\<rparr>
                       | (Some (JBool b), Some (JNum n)) \<Rightarrow>
                           Inr \<lparr>hasMore = Some b, total = Some n, completion_values = xs\<rparr>
                       | _ \<Rightarrow> Inl (ZodError (zod_message L v)))
                | None \<Rightarrow> Inl (ZodError (zod_message L v)))
           | _ \<Rightarrow> Inl (ZodError (zod_message L v)))
      | _ \<Rightarrow> Inl (ZodError (zod_message L v)))"

section \<open>Resources and resource templates\<close>

text \<open>What a resource's \<open>load\<close> resolves to: one object or an array of objects.\<close>

datatype resource_result = One "(string \<times> json) list" | Many "(string \<times> json) list list"

record resource =
  resource_load :: "thrown + resource_result"
  resource_mimeType :: json
  resource_name :: string
  uri :: string

record template_argument =
  targ_complete :: "ArgumentValueCompleter option"
  targ_name :: string

record resource_template =
  template_arguments :: "template_argument list"
  template_complete :: "(string \<Rightarrow> string \<Rightarrow> thrown + json) option"
  template_load :: "(string \<times> json) list \<Rightarrow> thrown + (string \<times> json) list"
  template_mimeType :: json
  template_name :: string
  uriTemplate :: string

definition template_completers :: "template_argument list \<Rightarrow> string \<rightharpoonup> ArgumentValueCompleter" where
  "template_completers as =
     fold (\<lambda>a m. case targ_complete a of Some c \<Rightarrow> m(targ_name a \<mapsto> c) | None \<Rightarrow> m) as Map.empty"

text \<open>The \<open>complete\<close> function that \<open>addResourceTemplate\<close> attaches to every template.\<close>

definition complete_template_argument ::
  "libs \<Rightarrow> template_argument list \<Rightarrow> string \<Rightarrow> string \<Rightarrow> thrown + json" where
  "complete_template_argument L as nm val =
     (case slot_of (template_completers as) (\<lambda>c. function_member L) nm of
        Own c \<Rightarrow> c val
      | Inherited \<Rightarrow> call_inherited L nm val
      | Absent \<Rightarrow> Inr (JObj [(''values'', JArr [])]))"

text \<open>The template that \<open>addResourceTemplate\<close> stores.\<close>

definition with_template_complete :: "libs \<Rightarrow> resource_template \<Rightarrow> resource_template" where
  "with_template_complete L t =
     t\<lparr>template_complete := Some (complete_template_argument L (template_arguments t))\<rparr>"

definition addResourceTemplate ::
  "libs \<Rightarrow> resource_template \<Rightarrow> resource_template list \<Rightarrow> resource_template list" where
  "addResourceTemplate L t ts = ts @ [with_template_complete L t]"

text \<open>
  An object literal that lists three properties and then spreads \<open>result\<close>: a property
  of \<open>result\<close> replaces the one of the same name, any other is appended.
\<close>

definition spread :: "(string \<times> json) list \<Rightarrow> (string \<times> json) list \<Rightarrow> (string \<times> json) list" where
  "spread base result = fold (\<lambda>(k, v) obj. AList.update k v obj) result base"

text \<open>The string conversion of a thrown value, as a template string computes it.\<close>

definition thrown_to_string :: "thrown \<Rightarrow> string" where
  "thrown_to_string e =
     (case e of
        UserError m \<Rightarrow> (if m = [] then ''UserError'' else ''UserError: '' @ m)
      | Exception s \<Rightarrow> s)"

text \<open>Which loader a read invoked, and with what.\<close>

datatype load_call =
    ResourceLoad string
  | TemplateLoad string "(string \<times> json) list"

record read_run =
  read_result :: "handler_error + (string \<times> json) list list"
  loads :: "load_call list"

text \<open>The loop over \<open>this.#resourceTemplates\<close> in the read-resource handler.\<close>

fun read_template :: "libs \<Rightarrow> resource_template list \<Rightarrow> string \<Rightarrow> read_run" where
  "read_template L [] requested =
     \<lparr>read_result =
        Inl (McpError MethodNotFound (''Unknown resource: '' @ requested) JUndefined),
      loads = []\<rparr>"
| "read_template L (t # ts) requested =
     (case fromUri L (uriTemplate t) requested of
        None \<Rightarrow> read_template L ts requested
      | Some match \<Rightarrow>
          \<lparr>read_result =
             (case template_load t match of
                Inl e \<Rightarrow> Inl (Uncaught e)
              | Inr result \<Rightarrow>
                  Inr [spread [(''mimeType'', template_mimeType t),
                               (''name'', JStr (template_name t)),
                               (''uri'', JStr (fillUri L (uriTemplate t) match))] result]),
           loads = [TemplateLoad (uriTemplate t) match]\<rparr>)"

definition inherit :: "resource \<Rightarrow> (string \<times> json) list \<Rightarrow> (string \<times> json) list" where
  "inherit r result =
     spread [(''mimeType'', resource_mimeType r), (''name'', JStr (resource_name r)),
             (''uri'', JStr (uri r))] result"

text \<open>The handler registered for \<open>ReadResourceRequestSchema\<close>.\<close>

definition readResource ::
  "libs \<Rightarrow> resource list \<Rightarrow> resource_template list \<Rightarrow> string \<Rightarrow> read_run" where
  "readResource L resources resourceTemplates requested =
     (case find (\<lambda>r. uri r = requested) resources of
        None \<Rightarrow> read_template L resourceTemplates requested
      | Some r \<Rightarrow>
          \<lparr>read_result =
             (case resource_load r of
                Inl e \<Rightarrow>
                  Inl (McpError InternalError
                        (''Error reading resource: '' @ thrown_to_string e)
                        (JObj [(''uri'', JStr (uri r))]))
              | Inr (Many results) \<Rightarrow> Inr (map (inherit r) results)
              | Inr (One result) \<Rightarrow> Inr [inherit r result]),
           loads = [ResourceLoad (uri r)]\<rparr>)"

section \<open>Getting a prompt\<close>

record get_prompt_request =
  gp_name :: string
  gp_arguments :: "(string \<times> string) list option"

record prompt_message =
  message_text :: string
  message_type :: string
  message_role :: string

record get_prompt_result =
  result_description :: json
  messages :: "prompt_message list"

text \<open>
  \<open>arg.required && !(args && arg.name in args)\<close>, where \<open>args\<close> is \<open>undefined\<close> or a
  plain object.
\<close>

definition missing :: "(string \<times> string) list option \<Rightarrow> prompt_argument \<Rightarrow> bool" where
  "missing args arg =
     (arg_required arg \<and>
      \<not> (case args of None \<Rightarrow> False | Some kvs \<Rightarrow> js_in (arg_name arg) kvs))"

text \<open>The handler registered for \<open>GetPromptRequestSchema\<close>.\<close>

definition getPrompt :: "prompt list \<Rightarrow> get_prompt_request \<Rightarrow> handler_error + get_prompt_result" where
  "getPrompt prompts req =
     (case find (\<lambda>p. prompt_name p = gp_name req) prompts of
        None \<Rightarrow> Inl (McpError MethodNotFound (''Unknown prompt: '' @ gp_name req) JUndefined)
      | Some p \<Rightarrow>
          (case find (missing (gp_arguments req)) (arguments_of p) of
             Some arg \<Rightarrow>
               Inl (McpError InvalidRequest
                     (''Missing required argument: '' @ arg_name arg) JUndefined)
           | None \<Rightarrow>
               (case prompt_load p (gp_arguments req) of
                  Inl e \<Rightarrow>
                    Inl (McpError InternalError
                          (''Error loading prompt: '' @ thrown_to_string e) JUndefined)
                | Inr result \<Rightarrow>
                    Inr \<lparr>result_description = prompt_description p,
                         messages = [\<lparr>message_text = result, message_type = ''text'',
                                      message_role = ''user''\<rparr>]\<rparr>)))"

section \<open>The session\<close>

record transport =
  transport_type :: "string option"

record ping_config =
  enabled :: "bool option"
  intervalMs :: "nat option"
  logLevel :: "logging_level option"

text \<open>
  The state of a \<open>FastMCPSession\<close>. \<open>transport\<close> is \<open>this.#server.transport\<close>;
  \<open>pingInterval\<close> holds the period of the running interval timer; \<open>tools\<close> and
  \<open>input_prompts\<close> are the constructor's lists, which the tool and prompt handlers
  close over, while \<open>prompts\<close> is \<open>this.#prompts\<close>, filled by \<open>addPrompt\<close>.
\<close>

record session =
  auth :: json
  clientCapabilities :: "json option"
  loggingLevel :: logging_level
  pingConfig :: "ping_config option"
  pingInterval :: "nat option"
  prompts :: "prompt list"
  resources :: "resource list"
  resourceTemplates :: "resource_template list"
  roots :: "json list"
  transport :: "transport option"
  tools :: "tool list"
  input_prompts :: "prompt list"

text \<open>The constructor of \<open>FastMCPSession\<close>.\<close>

definition FastMCPSession ::
  "libs \<Rightarrow> json \<Rightarrow> ping_config option \<Rightarrow> prompt list \<Rightarrow> resource list \<Rightarrow>
   resource_template list \<Rightarrow> tool list \<Rightarrow> session" where
  "FastMCPSession L a ping ps rs ts tls =
     \<lparr>auth = a, clientCapabilities = None, loggingLevel = Info, pingConfig = ping,
      pingInterval = None,
      prompts = fold (addPrompt L) ps [],
      resources = rs,
      resourceTemplates = fold (addResourceTemplate L) ts [],
      roots = [], transport = None, tools = tls, input_prompts = ps\<rparr>"

datatype completion_ref = RefPrompt string | RefResource string | RefOther

record complete_request =
  ref :: completion_ref
  argument_name :: string
  argument_value :: string

text \<open>The handler registered for \<open>CompleteRequestSchema\<close> by \<open>setupCompleteHandlers\<close>.\<close>

definition complete :: "libs \<Rightarrow> session \<Rightarrow> complete_request \<Rightarrow> handler_error + completion" where
  "complete L S req =
     (case ref req of
        RefPrompt nm \<Rightarrow>
          (case find (\<lambda>p. prompt_name p = nm) (prompts S) of
             None \<Rightarrow> Inl (UnexpectedStateError ''Unknown prompt'')
           | Some p \<Rightarrow>
               (case prompt_complete p of
                  None \<Rightarrow> Inl (UnexpectedStateError ''Prompt does not support completion'')
                | Some f \<Rightarrow>
                    (case f (argument_name req) (argument_value req) of
                       Inl e \<Rightarrow> Inl (Uncaught e)
                     | Inr c \<Rightarrow> CompletionZodSchema_parse L c)))
      | RefResource u \<Rightarrow>
          (case find (\<lambda>t. uriTemplate t = u) (resourceTemplates S) of
             None \<Rightarrow> Inl (UnexpectedStateError ''Unknown resource'')
           | Some t \<Rightarrow>
               (case template_complete t of
                  None \<Rightarrow> Inl (UnexpectedStateError ''Resource does not support completion'')
                | Some f \<Rightarrow>
                    (case f (argument_name req) (argument_value req) of
                       Inl e \<Rightarrow> Inl (Uncaught e)
                     | Inr c \<Rightarrow> CompletionZodSchema_parse L c)))
      | RefOther \<Rightarrow> Inl (UnexpectedStateError ''Unexpected completion request''))"

datatype request =
    CallTool call_tool_request
  | SetLevel logging_level
  | ListTools
  | ReadResource string
  | GetPrompt get_prompt_request
  | Complete complete_request

text \<open>
  What a request leads to. \<open>NoHandler\<close>: the session registered no handler for the
  method (it registers the tool handlers only when there are tools, and so on), and the
  RPC layer answers with its own method-not-found error.
\<close>

datatype reply =
    ToolRun call_tool_run
  | LevelSet
  | Tools "tool_listing list"
  | Read read_run
  | Prompt "handler_error + get_prompt_result"
  | Completed "handler_error + completion"
  | NoHandler

text \<open>One request on a session: the session afterwards and the reply.\<close>

definition dispatch :: "libs \<Rightarrow> session \<Rightarrow> request \<Rightarrow> session \<times> reply" where
  "dispatch L S rq =
     (case rq of
        CallTool r \<Rightarrow>
          (S, if tools S = [] then NoHandler else ToolRun (callTool L (auth S) (tools S) r))
      | SetLevel l \<Rightarrow> (S\<lparr>loggingLevel := l\<rparr>, LevelSet)
      | ListTools \<Rightarrow> (S, if tools S = [] then NoHandler else Tools (listTools L (tools S)))
      | ReadResource u \<Rightarrow>
          (S, if resources S = [] \<and> resourceTemplates S = [] then NoHandler
              else Read (readResource L (resources S) (resourceTemplates S) u))
      | GetPrompt r \<Rightarrow>
          (S, if input_prompts S = [] then NoHandler else Prompt (getPrompt (input_prompts S) r))
      | Complete r \<Rightarrow> (S, Completed (complete L S r)))"

text \<open>The code of the error response the client receives, if the reply is one.\<close>

definition reply_error_code :: "reply \<Rightarrow> error_code option" where
  "reply_error_code rp =
     (case rp of
        NoHandler \<Rightarrow> Some MethodNotFound
      | ToolRun run \<Rightarrow> (case response run of Some (Inl (McpError c _ _)) \<Rightarrow> Some c | _ \<Rightarrow> None)
      | Read run \<Rightarrow> (case read_result run of Inl (McpError c _ _) \<Rightarrow> Some c | _ \<Rightarrow> None)
      | Prompt (Inl (McpError c _ _)) \<Rightarrow> Some c
      | Completed (Inl (McpError c _ _)) \<Rightarrow> Some c
      | _ \<Rightarrow> None)"

section \<open>Connecting a session\<close>

datatype roots_reply = RootsListed "json list" | RootsMethodNotFound | RootsError string

text \<open>
  The other side of \<open>connect\<close>: whether \<open>this.#server.connect(transport)\<close> throws, what
  the n-th call of \<open>getClientCapabilities()\<close> returns (\<open>None\<close> for \<open>undefined\<close>), whether
  the server object has a \<open>listRoots\<close> function and what it answers.
\<close>

record peer =
  connect_error :: "thrown option"
  getClientCapabilities :: "nat \<Rightarrow> json option"
  has_listRoots :: bool
  listRoots :: roots_reply

datatype connect_event =
    GetClientCapabilities
  | Delay nat
  | ConsoleWarn string
  | ConsoleDebug string
  | ConsoleError string
  | ListRoots
  | SetInterval nat

text \<open>
  \<open>while (attempt++ < 10)\<close>: ask for the capabilities, stop when there are some, wait
  100 ms otherwise. \<open>attempt\<close> is the counter before the increment.
\<close>

function poll_capabilities ::
  "(nat \<Rightarrow> json option) \<Rightarrow> nat \<Rightarrow> connect_event list \<Rightarrow> json option \<times> connect_event list" where
  "poll_capabilities get attempt events =
     (if attempt < 10 then
        (case get attempt of
           Some capabilities \<Rightarrow> (Some capabilities, events @ [GetClientCapabilities])
         | None \<Rightarrow>
             poll_capabilities get (Suc attempt) (events @ [GetClientCapabilities, Delay 100]))
      else (None, events))"
  by pat_completeness auto
termination
  by (relation "measure (\<lambda>(get, attempt, events). 10 - attempt)") auto

declare poll_capabilities.simps [simp del]

definition truthy :: "json \<Rightarrow> bool" where
  "truthy v =
     (case v of
        JUndefined \<Rightarrow> False
      | JNull \<Rightarrow> False
      | JBool b \<Rightarrow> b
      | JNum n \<Rightarrow> n \<noteq> 0
      | JStr s \<Rightarrow> s \<noteq> []
      | _ \<Rightarrow> True)"

text \<open>\<open>this.#clientCapabilities?.roots?.listChanged\<close>\<close>

definition roots_listChanged :: "json option \<Rightarrow> bool" where
  "roots_listChanged caps =
     (case caps of
        Some (JObj kvs) \<Rightarrow>
          (case map_of kvs ''roots'' of
             Some (JObj r) \<Rightarrow> (case map_of r ''listChanged'' of Some v \<Rightarrow> truthy v | None \<Rightarrow> False)
           | _ \<Rightarrow> False)
      | _ \<Rightarrow> False)"

record effective_ping =
  ping_enabled :: bool
  ping_intervalMs :: nat
  ping_logLevel :: logging_level

definition getPingConfig :: "ping_config option \<Rightarrow> transport \<Rightarrow> effective_ping" where
  "getPingConfig cfg t =
     (let defaultEnabled =
            (transport_type t = Some ''sse'' \<or> transport_type t = Some ''httpStream'')
      in \<lparr>ping_enabled =
             (case cfg of
                None \<Rightarrow> defaultEnabled
              | Some c \<Rightarrow> (case enabled c of Some b \<Rightarrow> b | None \<Rightarrow> defaultEnabled)),
           ping_intervalMs =
             (case cfg of
                None \<Rightarrow> 5000
              | Some c \<Rightarrow> (case intervalMs c of Some n \<Rightarrow> if n = 0 then 5000 else n | None \<Rightarrow> 5000)),
           ping_logLevel =
             (case cfg of
                None \<Rightarrow> Debug
              | Some c \<Rightarrow> (case logLevel c of Some l \<Rightarrow> l | None \<Rightarrow> Debug))\<rparr>)"

text \<open>The part of \<open>connect\<close> that fetches the roots.\<close>

definition fetch_roots :: "peer \<Rightarrow> session \<Rightarrow> session \<times> connect_event list" where
  "fetch_roots P S =
     (if roots_listChanged (clientCapabilities S) \<and> has_listRoots P then
        (case listRoots P of
           RootsListed rs \<Rightarrow> (S\<lparr>roots := rs\<rparr>, [ListRoots])
         | RootsMethodNotFound \<Rightarrow>
             (S, [ListRoots,
                  ConsoleDebug ''[FastMCP debug] listRoots method not supported by client''])
         | RootsError stack \<Rightarrow>
             (S, [ListRoots,
                  ConsoleError (''[FastMCP error] received error listing roots.'' @ stack)]))
      else (S, []))"

text \<open>The part of \<open>connect\<close> that starts the ping timer.\<close>

definition start_ping :: "transport \<Rightarrow> session \<Rightarrow> session \<times> connect_event list" where
  "start_ping t S =
     (if clientCapabilities S \<noteq> None \<and> ping_enabled (getPingConfig (pingConfig S) t)
      then (S\<lparr>pingInterval := Some (ping_intervalMs (getPingConfig (pingConfig S) t))\<rparr>,
            [SetInterval (ping_intervalMs (getPingConfig (pingConfig S) t))])
      else (S, []))"

text \<open>
  \<open>FastMCPSession.connect\<close>: the events it causes, in order, and either the error it
  throws or the session once it has returned.
\<close>

definition connect :: "peer \<Rightarrow> transport \<Rightarrow> session \<Rightarrow> connect_event list \<times> (handler_error + session)" where
  "connect P t S =
     (case transport S of
        Some _ \<Rightarrow> ([], Inl (UnexpectedStateError ''Server is already connected''))
      | None \<Rightarrow>
          (case connect_error P of
             Some e \<Rightarrow> ([], Inl (Uncaught e))
           | None \<Rightarrow>
               let S1 = S\<lparr>transport := Some t\<rparr>;
                   (caps, polled) = poll_capabilities (getClientCapabilities P) 0 [];
                   S2 = (case caps of
                           Some capabilities \<Rightarrow> S1\<lparr>clientCapabilities := Some capabilities\<rparr>
                         | None \<Rightarrow> S1);
                   warned = (if clientCapabilities S2 = None
                             then [ConsoleWarn ''[FastMCP warning] could not infer client capabilities'']
                             else []);
                   (S3, rooted) = fetch_roots P S2;
                   (S4, pinged) = start_ping t S3
               in (polled @ warned @ rooted @ pinged, Inr S4)))"

section \<open>The server facade\<close>

datatype facade_event = ConnectEvent nat | DisconnectEvent nat

text \<open>
  The \<open>FastMCP\<close> object once started on an SSE or HTTP-stream transport. A session
  object is identified by the number of the connection it was created for;
  \<open>activeTransports\<close> is the table kept by the HTTP server of mcp-proxy, \<open>emitted\<close> the
  events emitted so far.
\<close>

record FastMCP =
  sessions :: "nat list"
  emitted :: "facade_event list"
  activeTransports :: "nat list"

definition onConnect :: "nat \<Rightarrow> FastMCP \<Rightarrow> FastMCP" where
  "onConnect s F = F\<lparr>sessions := sessions F @ [s], emitted := emitted F @ [ConnectEvent s]\<rparr>"

definition onClose :: "nat \<Rightarrow> FastMCP \<Rightarrow> FastMCP" where
  "onClose s F = F\<lparr>emitted := emitted F @ [DisconnectEvent s]\<rparr>"

text \<open>
  What the HTTP server does with the callbacks: a client connects (\<open>createServer\<close> runs
  the authenticator, which may throw; then the session is connected and \<open>onConnect\<close> is
  called), or the connection of a client closes (\<open>onClose\<close> is called and the transport
  is dropped from the table).
\<close>

datatype client_event = Connects nat bool | Closes nat

fun facade_step :: "client_event \<Rightarrow> FastMCP \<Rightarrow> FastMCP" where
  "facade_step (Connects c authenticated) F =
     (if authenticated
      then onConnect c (F\<lparr>activeTransports := activeTransports F @ [c]\<rparr>)
      else F)"
| "facade_step (Closes c) F =
     (if c \<in> set (activeTransports F)
      then (onClose c F)\<lparr>activeTransports := removeAll c (activeTransports F)\<rparr>
      else F)"

definition started :: FastMCP where
  "started = \<lparr>sessions = [], emitted = [], activeTransports = []\<rparr>"

definition facade_run :: "client_event list \<Rightarrow> FastMCP" where
  "facade_run evs = fold facade_step evs started"

section \<open>Example registrations\<close>

text \<open>
  Concrete registrations, after the repository's own tests, on which the theorems below
  are instantiated. The library functions are filled in with simple stand-ins:
  templates with a single \<open>{placeholder}\<close>, a substring search, and the clamping of
  \<open>setTimeout\<close> delays to the range from 1 to \<open>2^31 - 1\<close>.
\<close>

definition single_placeholder_fromUri :: "string \<Rightarrow> string \<Rightarrow> (string \<times> json) list option" where
  "single_placeholder_fromUri t u =
     (let before = takeWhile (\<lambda>c. c \<noteq> CHR ''{'') t;
          rest = dropWhile (\<lambda>c. c \<noteq> CHR ''{'') t
      in if rest = [] then (if t = u then Some [] else None)
         else
           let var = takeWhile (\<lambda>c. c \<noteq> CHR ''}'') (tl rest);
               after = tl (dropWhile (\<lambda>c. c \<noteq> CHR ''}'') rest)
           in if length before + length after \<le> length u
                 \<and> take (length before) u = before
                 \<and> drop (length u - length after) u = after
              then Some [(var, JStr (take (length u - length before - length after)
                                      (drop (length before) u)))]
              else None)"

fun occurs_in :: "string \<Rightarrow> string \<Rightarrow> bool" where
  "occurs_in q [] = (q = [])"
| "occurs_in q (c # cs) = (take (length q) (c # cs) = q \<or> occurs_in q cs)"

definition example_libs :: libs where
  "example_libs =
     \<lparr>setTimeout_delay = (\<lambda>T. if T < 1 \<or> 2147483647 < T then 1 else T),
      is_base64 = (\<lambda>_. True),
      zod_message = (\<lambda>_. ''ZodError''),
      in_type_error = (\<lambda>_. ''TypeError''),
      toJsonSchema = (\<lambda>_. JObj [(''type'', JStr ''object'')]),
      fromUri = single_placeholder_fromUri,
      fillUri = (\<lambda>t m. case m of
                   [(k, JStr v)] \<Rightarrow>
                     takeWhile (\<lambda>c. c \<noteq> CHR ''{'') t @ v
                       @ tl (dropWhile (\<lambda>c. c \<noteq> CHR ''}'') t)
                 | _ \<Rightarrow> t),
      fuse_search = (\<lambda>xs v. filter (occurs_in v) xs),
      call_inherited = (\<lambda>name v. Inr (JStr ''[object Object]'')),
      search_inherited = (\<lambda>name v. Inr (JObj [(''total'', JNum 0), (''values'', JArr [])])),
      function_member = (\<lambda>name. name \<in> set [''length'', ''name'', ''call'', ''apply'', ''bind'']),
      array_member = (\<lambda>xs name. name = ''length'' \<and> xs \<noteq> [])\<rparr>"

text \<open>\<open>z.object({a: z.number(), b: z.number()})\<close>\<close>

definition number_pair :: schema where
  "number_pair =
     \<lparr>schema_id = 0,
      validate = (\<lambda>v. case v of
                    JObj kvs \<Rightarrow>
                      (case (map_of kvs ''a'', map_of kvs ''b'') of
                         (Some (JNum a), Some (JNum b)) \<Rightarrow> Value (JObj [(''a'', JNum a), (''b'', JNum b)])
                       | _ \<Rightarrow> Issues ''expected number'')
                  | _ \<Rightarrow> Issues ''expected object'')\<rparr>"

text \<open>The tool of the test \<open>handles UserError errors\<close>.\<close>

definition failing_add :: tool where
  "failing_add =
     \<lparr>annotations = JUndefined, tool_description = JStr ''Add two numbers'',
      execute = (\<lambda>args session.
                   \<lparr>emits = [], settles = Some (0, Throws (UserError ''Something went wrong''))\<rparr>),
      tool_name = ''add'', parameters = Some number_pair, timeoutMs = None\<rparr>"

text \<open>
  The tool of the test \<open>handles tool timeout\<close>: it waits 3000 ms when an argument
  exceeds 1000, and has a timeout of 1000 ms.
\<close>

definition slow_add :: tool where
  "slow_add =
     \<lparr>annotations = JUndefined,
      tool_description = JStr ''Add two numbers with potential timeout'',
      execute = (\<lambda>args session.
                   case args of
                     JObj [(_, JNum a), (_, JNum b)] \<Rightarrow>
                       \<lparr>emits = [(3000, LogInfo ''done'' JUndefined)],
                        settles = Some (if 1000 < a \<or> 1000 < b then 3000 else 0,
                                        Returns (JStr (show_nat (nat (a + b)))))\<rparr>
                   | _ \<Rightarrow> \<lparr>emits = [], settles = Some (0, Throws (Exception ''TypeError''))\<rparr>),
      tool_name = ''add'', parameters = Some number_pair, timeoutMs = Some 1000\<rparr>"

text \<open>A tool with a timeout whose \<open>execute\<close> throws after the timeout has passed.\<close>

definition late_failure :: tool where
  "late_failure =
     \<lparr>annotations = JUndefined, tool_description = JUndefined,
      execute = (\<lambda>args session. \<lparr>emits = [], settles = Some (2000, Throws (UserError ''boom''))\<rparr>),
      tool_name = ''late'', parameters = None, timeoutMs = Some 1000\<rparr>"


text \<open>A tool without \<open>parameters\<close> that tells whether it was given an argument value.\<close>

definition echo :: tool where
  "echo =
     \<lparr>annotations = JUndefined, tool_description = JStr ''Echo'',
      execute = (\<lambda>args session.
                   \<lparr>emits = [],
                    settles = Some (0, Returns (JStr (if args = JUndefined then ''nothing''
                                                      else ''something'')))\<rparr>),
      tool_name = ''echo'', parameters = None, timeoutMs = None\<rparr>"

definition call :: "string \<Rightarrow> json \<Rightarrow> call_tool_request" where
  "call nm args = \<lparr>req_name = nm, req_arguments = args, req_progressToken = JUndefined\<rparr>"

definition session_with_tools :: "tool list \<Rightarrow> session" where
  "session_with_tools tls = FastMCPSession example_libs JUndefined None [] [] [] tls"

text \<open>The prompt of the test \<open>adds prompts\<close>.\<close>

definition git_commit :: prompt where
  "git_commit =
     \<lparr>prompt_arguments =
        Some [\<lparr>arg_complete = None,
               arg_description = JStr ''Git diff or description of changes'',
               arg_enum = None, arg_name = ''changes'', arg_required = True\<rparr>],
      prompt_complete = None,
      prompt_description = JStr ''Generate a Git commit message'',
      prompt_load = (\<lambda>args. case args of
                       Some [(_, changes)] \<Rightarrow>
                         Inr (''Generate a concise but descriptive commit message for these changes: ''
                              @ changes)
                     | _ \<Rightarrow> Inl (Exception ''TypeError'')),
      prompt_name = ''git-commit''\<rparr>"


text \<open>A prompt with a required argument that is named like a method of every object.\<close>

definition describe :: prompt where
  "describe =
     \<lparr>prompt_arguments =
        Some [\<lparr>arg_complete = None, arg_description = JStr ''How to print the value'',
               arg_enum = None, arg_name = ''toString'', arg_required = True\<rparr>],
      prompt_complete = None,
      prompt_description = JStr ''Describes a value'',
      prompt_load = (\<lambda>args. Inr ''Describe the value''),
      prompt_name = ''describe''\<rparr>"

definition session_with_prompts :: "prompt list \<Rightarrow> session" where
  "session_with_prompts ps = FastMCPSession example_libs JUndefined None ps [] [] []"

text \<open>The resource and the template of the tests on reading resources.\<close>

definition application_logs :: resource where
  "application_logs =
     \<lparr>resource_load = Inr (Many [[(''text'', JStr ''a'')], [(''text'', JStr ''b'')]]),
      resource_mimeType = JStr ''text/plain'', resource_name = ''Application Logs'',
      uri = ''file:///x''\<rparr>"



definition session_with_resources :: "resource list \<Rightarrow> resource_template list \<Rightarrow> session" where
  "session_with_resources rs ts = FastMCPSession example_libs JUndefined None [] rs ts []"

text \<open>A client that never advertises capabilities.\<close>

definition silent_peer :: peer where
  "silent_peer =
     \<lparr>connect_error = None, getClientCapabilities = (\<lambda>n. None), has_listRoots = True,
      listRoots = RootsMethodNotFound\<rparr>"

definition sse_transport :: transport where
  "sse_transport = \<lparr>transport_type = Some ''sse''\<rparr>"

section \<open>Lookup by name\<close>

text \<open>
  The handlers look a tool, a prompt or a resource up with \<open>find\<close>, which returns the
  first entry with the requested key. The theorems below are stated for the entry that
  \<open>find\<close> returns; when the keys of a registry are distinct, as the registry expects
  of its callers, this is every registered entry under its own key.
\<close>

lemma find_registered:
  "x \<in> set xs \<Longrightarrow> distinct (map key xs) \<Longrightarrow> find (\<lambda>y. key y = key x) xs = Some x"
proof (induction xs)
  case Nil
  then show ?case by simp
next
  case (Cons y ys)
  show ?case
  proof (cases "x = y")
    case True
    then show ?thesis by simp
  next
    case False
    with Cons.prems have "x \<in> set ys" "key y \<noteq> key x" by force+
    with Cons show ?thesis by simp
  qed
qed

section \<open>Facts about the example sessions\<close>

lemma tools_session_with_tools [simp]: "tools (session_with_tools tls) = tls"
  by (simp add: session_with_tools_def FastMCPSession_def)

lemma auth_session_with_tools [simp]: "auth (session_with_tools tls) = JUndefined"
  by (simp add: session_with_tools_def FastMCPSession_def)

section \<open>Errors thrown by a tool\<close>

lemma show_nat_1000: "show_nat 1000 = ''1000''"
  by code_simp

text \<open>
  Claim C1, as stated, fails for a tool with a timeout whose \<open>execute\<close> throws only
  after the timer has fired. The tool \<open>late_failure\<close> has \<open>timeoutMs = 1000\<close> and its
  \<open>execute\<close> throws \<open>UserError("boom")\<close> after 2000 ms; the request passes argument
  validation, and the text of the answer is the timeout message, not the message of
  the thrown error.
\<close>

theorem late_throw_counterexample:
  "find (\<lambda>t. tool_name t = req_name (call ''late'' JUndefined))
        (tools (session_with_tools [late_failure])) = Some late_failure
   \<and> tool_args late_failure (call ''late'' JUndefined) = Inr JUndefined
   \<and> settles (execute late_failure JUndefined (auth (session_with_tools [late_failure])))
       = Some (2000, Throws (UserError ''boom''))
   \<and> dispatch example_libs (session_with_tools [late_failure]) (CallTool (call ''late'' JUndefined))
       = (session_with_tools [late_failure],
          ToolRun \<lparr>response =
                     Some (Inr \<lparr>content = [TextContent ''Tool execution timed out after 1000ms''],
                                isError = Some True\<rparr>),
                   responded_at = Some 1000, invoked_with = [JUndefined], sent = []\<rparr>)
   \<and> ''Tool execution timed out after 1000ms'' \<noteq> ''boom''"
  by (simp add: dispatch_def callTool_def call_def late_failure_def tool_args_def
        await_execution_def example_libs_def catch_tool_error_def error_result_def
        timeout_message_def show_nat_1000)

text \<open>
  Claim C1, amended. For the tool registered under the requested name and a request
  that passes argument validation: if \<open>execute\<close> throws after \<open>d\<close> ms, and the tool
  has no timeout, or \<open>timeoutMs = 0\<close>, or the timer of its timeout fires later than
  that, then the request is answered by a normal call-tool result and the session is
  left as it was. The result has \<open>isError = true\<close> and a single text content: the
  message of the error when it is a \<open>UserError\<close>, and \<open>Error: \<close> followed by the
  string conversion of the thrown value otherwise.
\<close>

theorem execute_throw_is_error_content:
  assumes "find (\<lambda>t. tool_name t = req_name req) (tools S) = Some t"
    and "tool_args t req = Inr args"
    and "settles (execute t args (auth S)) = Some (d, Throws e)"
    and "timeoutMs t = None \<or> timeoutMs t = Some 0
         \<or> (\<exists>T. timeoutMs t = Some T \<and> d < setTimeout_delay L T)"
  shows "\<exists>run. dispatch L S (CallTool req) = (S, ToolRun run)
           \<and> response run =
               Some (Inr \<lparr>content = [TextContent (case e of
                                                     UserError message \<Rightarrow> message
                                                   | Exception details \<Rightarrow> ''Error: '' @ details)],
                          isError = Some True\<rparr>)
           \<and> responded_at run = Some d"
proof -
  from assms(1) have ne: "tools S \<noteq> []" by auto
  have aw: "await_execution L (timeoutMs t) (execute t args (auth S)) = Some (d, Throws e)"
    using assms(3,4) by (auto simp: await_execution_def)
  have c: "catch_tool_error e =
      \<lparr>content = [TextContent (case e of UserError message \<Rightarrow> message
                                | Exception details \<Rightarrow> ''Error: '' @ details)],
       isError = Some True\<rparr>"
    by (cases e) (simp_all add: catch_tool_error_def error_result_def)
  show ?thesis
    using assms(1,2) ne aw c
    by (simp add: dispatch_def callTool_def Let_def)
qed

theorem execute_throw_is_error_content_witness:
  "find (\<lambda>t. tool_name t = req_name (call ''add'' (JObj [(''a'', JNum 1), (''b'', JNum 2)])))
       (tools (session_with_tools [failing_add])) = Some failing_add
   \<and> tool_args failing_add (call ''add'' (JObj [(''a'', JNum 1), (''b'', JNum 2)]))
       = Inr (JObj [(''a'', JNum 1), (''b'', JNum 2)])
   \<and> settles (execute failing_add (JObj [(''a'', JNum 1), (''b'', JNum 2)])
               (auth (session_with_tools [failing_add])))
       = Some (0, Throws (UserError ''Something went wrong''))
   \<and> timeoutMs failing_add = None
   \<and> (\<exists>run. dispatch example_libs (session_with_tools [failing_add])
               (CallTool (call ''add'' (JObj [(''a'', JNum 1), (''b'', JNum 2)])))
             = (session_with_tools [failing_add], ToolRun run)
            \<and> response run =
                Some (Inr \<lparr>content = [TextContent ''Something went wrong''], isError = Some True\<rparr>))"
proof -
  let ?rq = "call ''add'' (JObj [(''a'', JNum 1), (''b'', JNum 2)])"
  have f: "find (\<lambda>t. tool_name t = req_name ?rq) (tools (session_with_tools [failing_add]))
             = Some failing_add"
    by (simp add: call_def failing_add_def)
  have a: "tool_args failing_add ?rq = Inr (JObj [(''a'', JNum 1), (''b'', JNum 2)])"
    by (simp add: tool_args_def call_def failing_add_def number_pair_def)
  have s: "settles (execute failing_add (JObj [(''a'', JNum 1), (''b'', JNum 2)])
               (auth (session_with_tools [failing_add])))
       = Some (0, Throws (UserError ''Something went wrong''))"
    by (simp add: failing_add_def)
  have t: "timeoutMs failing_add = None" by (simp add: failing_add_def)
  from t have t': "timeoutMs failing_add = None \<or> timeoutMs failing_add = Some 0
         \<or> (\<exists>T. timeoutMs failing_add = Some T \<and> 0 < setTimeout_delay example_libs T)"
    by simp
  from execute_throw_is_error_content [OF f a s t'] f a s t
  show ?thesis by auto
qed

section \<open>The timeout of a tool\<close>




section \<open>The list of sessions of the facade\<close>

text \<open>No event removes a session: the list holds every client that ever connected.\<close>

lemma sessions_fold_facade_step:
  "sessions (fold facade_step evs F) =
     sessions F @ concat (map (\<lambda>ev. case ev of Connects c True \<Rightarrow> [c] | _ \<Rightarrow> []) evs)"
proof (induction evs arbitrary: F)
  case Nil
  then show ?case by simp
next
  case (Cons ev evs)
  show ?case
  proof (cases ev)
    case (Connects c authenticated)
    then show ?thesis using Cons.IH by (simp add: onConnect_def)
  next
    case (Closes c)
    then show ?thesis using Cons.IH by (simp add: onClose_def)
  qed
qed

text \<open>
  Claim C3. Client 1 connects, its connection closes, client 2 connects. The facade
  emits \<open>connect\<close>, \<open>disconnect\<close>, \<open>connect\<close>, but \<open>onClose\<close> only emits the event:
  the session of client 1 stays in the list, which ends as \<open>[1, 2]\<close> and not as \<open>[2]\<close>.
\<close>

theorem sessions_keep_closed_session:
  "sessions (facade_run [Connects 1 True, Closes 1, Connects 2 True]) = [1, 2]
   \<and> emitted (facade_run [Connects 1 True, Closes 1, Connects 2 True])
       = [ConnectEvent 1, DisconnectEvent 1, ConnectEvent 2]"
  by (simp add: facade_run_def started_def onConnect_def onClose_def)

section \<open>The schema listed for a tool\<close>

lemma schema_false_rejects: "schema_accepts (JBool False) v = False"
  by (simp add: schema_accepts.simps)

lemma list_all_no_property: "list_all (\<lambda>(k, x). False) kvs = (kvs = [])"
  by (cases kvs) auto

lemma empty_object_schema_accepts: "schema_accepts empty_object_schema v = (v = JObj [])"
proof (cases v)
  case (JObj kvs)
  have "schema_accepts empty_object_schema (JObj kvs) = list_all (\<lambda>(k, x). False) kvs"
    unfolding empty_object_schema_def
    by (subst schema_accepts.simps)
       (simp add: has_json_type_def schema_properties_def schema_false_rejects)
  then show ?thesis using JObj by (simp add: list_all_no_property)
qed (simp_all add: empty_object_schema_def schema_accepts.simps [of "JObj kws" for kws]
       has_json_type_def)

text \<open>
  Claim C4, as stated, fails: the schema listed for a tool without \<open>parameters\<close> has
  \<open>additionalProperties: false\<close> and no properties, so it is not permissive. It
  rejects the object \<open>{a: 1}\<close>.
\<close>

theorem closed_schema_counterexample:
  "parameters echo = None
   \<and> map listed_inputSchema (listTools example_libs [echo]) = [empty_object_schema]
   \<and> \<not> schema_accepts empty_object_schema (JObj [(''a'', JNum 1)])"
  by (simp add: empty_object_schema_accepts listTools_def echo_def)

text \<open>
  Claim C4, amended. The list-tools response has one entry for each registered tool, in
  the order of registration, with the tool's name, description and annotations. The
  input schema of a tool with \<open>parameters\<close> is what \<open>toJsonSchema\<close> derives from them;
  for a tool without, it is the closed empty-object schema
  \<open>{additionalProperties: false, properties: {}, type: "object"}\<close>, which accepts the
  object without properties and nothing else.
\<close>

theorem list_tools_reports_each_tool:
  assumes "i < length (tools S)"
  shows "\<exists>listing. dispatch L S ListTools = (S, Tools listing)
           \<and> length listing = length (tools S)
           \<and> listing ! i =
               \<lparr>listed_annotations = annotations (tools S ! i),
                listed_description = tool_description (tools S ! i),
                listed_inputSchema =
                  (case parameters (tools S ! i) of
                     Some sch \<Rightarrow> toJsonSchema L sch
                   | None \<Rightarrow> JObj [(''additionalProperties'', JBool False),
                                   (''properties'', JObj []), (''type'', JStr ''object'')]),
                listed_name = tool_name (tools S ! i)\<rparr>
           \<and> (\<forall>v. schema_accepts (JObj [(''additionalProperties'', JBool False),
                                        (''properties'', JObj []), (''type'', JStr ''object'')]) v
                    = (v = JObj []))"
proof -
  from assms have ne: "tools S \<noteq> []" by auto
  show ?thesis
    using assms ne empty_object_schema_accepts
    by (simp add: dispatch_def listTools_def empty_object_schema_def split: option.splits)
qed

theorem list_tools_reports_each_tool_witness:
  "0 < length (tools (session_with_tools [echo, slow_add]))
   \<and> (\<exists>listing. dispatch example_libs (session_with_tools [echo, slow_add]) ListTools
                  = (session_with_tools [echo, slow_add], Tools listing)
        \<and> listing ! 0 =
            \<lparr>listed_annotations = JUndefined, listed_description = JStr ''Echo'',
             listed_inputSchema = JObj [(''additionalProperties'', JBool False),
                                        (''properties'', JObj []), (''type'', JStr ''object'')],
             listed_name = ''echo''\<rparr>
        \<and> schema_accepts (listed_inputSchema (listing ! 0)) (JObj [])
        \<and> \<not> schema_accepts (listed_inputSchema (listing ! 0)) (JObj [(''a'', JNum 1)]))"
proof -
  have l: "0 < length (tools (session_with_tools [echo, slow_add]))" by simp
  have e: "annotations echo = JUndefined" "tool_description echo = JStr ''Echo''"
    "parameters echo = None" "tool_name echo = ''echo''"
    by (simp_all add: echo_def)
  from list_tools_reports_each_tool [OF l, of example_libs] l
  show ?thesis by (auto simp: e)
qed

section \<open>Completion of prompt arguments\<close>















section \<open>Answers to read-resource requests\<close>



lemma resources_FastMCPSession: "resources (FastMCPSession L a ping ps rs ts tls) = rs"
  by (simp add: FastMCPSession_def)








text \<open>
  The value of a property after a spread: the one of \<open>result\<close> if it has the property
  (the last one, should the list name it twice), the one listed before the spread
  otherwise.
\<close>

lemma map_of_fold_update:
  "map_of (fold (\<lambda>(k, v) obj. AList.update k v obj) result base)
     = map_of base ++ map_of (rev result)"
proof (induction result arbitrary: base)
  case Nil
  then show ?case by simp
next
  case (Cons kv result)
  obtain k v where kv: "kv = (k, v)" by (cases kv)
  have "map_of (fold (\<lambda>(k, v) obj. AList.update k v obj) (kv # result) base)
          = map_of (AList.update k v base) ++ map_of (rev result)"
    using Cons.IH [of "AList.update k v base"] kv by simp
  also have "\<dots> = (map_of base)(k \<mapsto> v) ++ map_of (rev result)"
    by (simp add: update_conv')
  also have "\<dots> = map_of base ++ map_of (rev (kv # result))"
    using kv by (simp add: map_add_def fun_eq_iff split: option.splits)
  finally show ?case .
qed

lemma map_of_inherit:
  "map_of (inherit r result) k =
     (case map_of (rev result) k of
        Some v \<Rightarrow> Some v
      | None \<Rightarrow> map_of [(''mimeType'', resource_mimeType r), (''name'', JStr (resource_name r)),
                         (''uri'', JStr (uri r))] k)"
  unfolding inherit_def spread_def map_of_fold_update
  by (simp add: map_add_def split: option.splits)

text \<open>
  Claim C7. For a read request whose URI is the URI of a direct resource (the first one
  registered with it) and whose loader succeeds: the loader is invoked, the session is
  left as it was, and the response has one entry when the loader returns a single
  object and \<open>N\<close> entries when it returns a list of \<open>N\<close> objects. The i-th entry has
  every property of the i-th loaded object with the loaded value, and for any other
  property what the resource gives: its MIME type, its name and its URI.
\<close>

theorem read_direct_resource:
  assumes "find (\<lambda>r. uri r = requested) (resources S) = Some r"
    and "resource_load r = Inr loaded"
  shows "\<exists>entries.
           dispatch L S (ReadResource requested) =
             (S, Read \<lparr>read_result = Inr entries, loads = [ResourceLoad requested]\<rparr>)
           \<and> length entries = (case loaded of One result \<Rightarrow> 1 | Many results \<Rightarrow> length results)
           \<and> (\<forall>i<length entries. \<forall>k.
                 map_of (entries ! i) k =
                   (case map_of (rev (case loaded of One result \<Rightarrow> result
                                      | Many results \<Rightarrow> results ! i)) k of
                      Some v \<Rightarrow> Some v
                    | None \<Rightarrow> map_of [(''mimeType'', resource_mimeType r),
                                       (''name'', JStr (resource_name r)),
                                       (''uri'', JStr requested)] k))"
proof -
  from assms(1) have ne: "resources S \<noteq> []" by auto
  from assms(1) have u: "uri r = requested" by (auto simp: find_Some_iff)
  show ?thesis
  proof (cases loaded)
    case (One result)
    with assms ne u show ?thesis
      by (simp add: dispatch_def readResource_def map_of_inherit cong: option.case_cong)
  next
    case (Many results)
    with assms ne u show ?thesis
      by (simp add: dispatch_def readResource_def map_of_inherit cong: option.case_cong)
  qed
qed

theorem read_direct_resource_witness:
  "find (\<lambda>r. uri r = ''file:///x'') (resources (session_with_resources [application_logs] []))
     = Some application_logs
   \<and> resource_load application_logs = Inr (Many [[(''text'', JStr ''a'')], [(''text'', JStr ''b'')]])
   \<and> (\<exists>entries.
         dispatch example_libs (session_with_resources [application_logs] []) (ReadResource ''file:///x'')
           = (session_with_resources [application_logs] [],
              Read \<lparr>read_result = Inr entries, loads = [ResourceLoad ''file:///x'']\<rparr>)
         \<and> length entries = 2
         \<and> map_of (entries ! 0) ''uri'' = Some (JStr ''file:///x'')
         \<and> map_of (entries ! 0) ''text'' = Some (JStr ''a'')
         \<and> map_of (entries ! 1) ''uri'' = Some (JStr ''file:///x'')
         \<and> map_of (entries ! 1) ''text'' = Some (JStr ''b'')
         \<and> map_of (entries ! 1) ''name'' = Some (JStr ''Application Logs''))"
proof -
  let ?S = "session_with_resources [application_logs] []"
  have f: "find (\<lambda>r. uri r = ''file:///x'') (resources ?S) = Some application_logs"
    by (simp add: session_with_resources_def resources_FastMCPSession application_logs_def)
  have l: "resource_load application_logs
             = Inr (Many [[(''text'', JStr ''a'')], [(''text'', JStr ''b'')]])"
    by (simp add: application_logs_def)
  have n: "resource_name application_logs = ''Application Logs''"
    by (simp add: application_logs_def)
  from read_direct_resource [OF f l, of example_libs]
  obtain entries where
    d: "dispatch example_libs ?S (ReadResource ''file:///x'')
          = (?S, Read \<lparr>read_result = Inr entries, loads = [ResourceLoad ''file:///x'']\<rparr>)"
    and len: "length entries = 2"
    and each: "\<forall>i<length entries. \<forall>k.
                 map_of (entries ! i) k =
                   (case map_of (rev ([[(''text'', JStr ''a'')], [(''text'', JStr ''b'')]] ! i)) k of
                      Some v \<Rightarrow> Some v
                    | None \<Rightarrow> map_of [(''mimeType'', resource_mimeType application_logs),
                                       (''name'', JStr (resource_name application_logs)),
                                       (''uri'', JStr ''file:///x'')] k)"
    by auto
  from len each have
    "map_of (entries ! 0) ''uri'' = Some (JStr ''file:///x'')"
    "map_of (entries ! 0) ''text'' = Some (JStr ''a'')"
    "map_of (entries ! 1) ''uri'' = Some (JStr ''file:///x'')"
    "map_of (entries ! 1) ''text'' = Some (JStr ''b'')"
    "map_of (entries ! 1) ''name'' = Some (JStr ''Application Logs'')"
    by (simp_all add: n)
  with f l d len show ?thesis by blast
qed

section \<open>Connecting without client capabilities\<close>

lemma poll_capabilities_exhausted:
  "\<forall>k<10. get k = None \<Longrightarrow>
     poll_capabilities get attempt events =
       (None, events @ concat (replicate (10 - attempt) [GetClientCapabilities, Delay 100]))"
proof (induction get attempt events rule: poll_capabilities.induct)
  case (1 get attempt events)
  show ?case
  proof (cases "attempt < 10")
    case True
    with "1.prems" have g: "get attempt = None" by simp
    from True have r: "10 - attempt = Suc (10 - Suc attempt)" by simp
    from "1.IH" [OF True g "1.prems"] True g show ?thesis
      by (subst poll_capabilities.simps) (simp add: r)
  next
    case False
    then show ?thesis by (subst poll_capabilities.simps) simp
  qed
qed

lemma poll_capabilities_found:
  "get (attempt + k) = Some c \<Longrightarrow> \<forall>j<k. get (attempt + j) = None \<Longrightarrow> attempt + k < 10 \<Longrightarrow>
     poll_capabilities get attempt events =
       (Some c, events @ concat (replicate k [GetClientCapabilities, Delay 100])
                  @ [GetClientCapabilities])"
proof (induction k arbitrary: attempt events)
  case 0
  then show ?case by (subst poll_capabilities.simps) simp
next
  case (Suc k)
  from Suc.prems(2) have g: "get attempt = None" by (metis add.right_neutral zero_less_Suc)
  have n: "\<forall>j<k. get (Suc attempt + j) = None"
    using Suc.prems(2) by (metis Suc_less_eq add_Suc_shift)
  from Suc.IH [of "Suc attempt" "events @ [GetClientCapabilities, Delay 100]"] Suc.prems n g
  show ?case by (subst poll_capabilities.simps) simp
qed

lemma poll_capabilities_count:
  "length (filter (\<lambda>e. e = GetClientCapabilities) (snd (poll_capabilities get attempt events)))
     \<le> length (filter (\<lambda>e. e = GetClientCapabilities) events) + (10 - attempt)"
proof (induction get attempt events rule: poll_capabilities.induct)
  case (1 get attempt events)
  show ?case
  proof (cases "attempt < 10")
    case True
    show ?thesis
    proof (cases "get attempt")
      case None
      with "1.IH" [OF True None] True show ?thesis
        by (subst poll_capabilities.simps) simp
    next
      case (Some c)
      with True show ?thesis by (subst poll_capabilities.simps) simp
    qed
  next
    case False
    then show ?thesis by (subst poll_capabilities.simps) simp
  qed
qed

lemma poll_capabilities_delays:
  "Delay d \<in> set (snd (poll_capabilities get attempt events)) \<Longrightarrow>
     d = 100 \<or> Delay d \<in> set events"
proof (induction get attempt events rule: poll_capabilities.induct)
  case (1 get attempt events)
  show ?case
  proof (cases "attempt < 10")
    case True
    show ?thesis
    proof (cases "get attempt")
      case None
      with "1.IH" [OF True None] "1.prems" True show ?thesis
        by (subst (asm) poll_capabilities.simps) auto
    next
      case (Some c)
      with True "1.prems" show ?thesis by (subst (asm) poll_capabilities.simps) simp
    qed
  next
    case False
    with "1.prems" show ?thesis by (subst (asm) poll_capabilities.simps) simp
  qed
qed

lemma fetch_roots_events:
  "GetClientCapabilities \<notin> set (snd (fetch_roots P S))" "Delay d \<notin> set (snd (fetch_roots P S))"
  by (auto simp: fetch_roots_def split: roots_reply.splits)

lemma start_ping_events:
  "GetClientCapabilities \<notin> set (snd (start_ping t S))" "Delay d \<notin> set (snd (start_ping t S))"
  by (auto simp: start_ping_def)

lemma connect_unfold:
  assumes "transport S = None" and "connect_error P = None"
  shows "connect P t S =
     (let polled = poll_capabilities (getClientCapabilities P) 0 [];
          S2 = (case fst polled of
                  Some capabilities \<Rightarrow> S\<lparr>transport := Some t, clientCapabilities := Some capabilities\<rparr>
                | None \<Rightarrow> S\<lparr>transport := Some t\<rparr>);
          S3 = fst (fetch_roots P S2)
      in (snd polled
            @ (if clientCapabilities S2 = None
               then [ConsoleWarn ''[FastMCP warning] could not infer client capabilities'']
               else [])
            @ snd (fetch_roots P S2) @ snd (start_ping t S3),
          Inr (fst (start_ping t S3))))"
  using assms by (simp add: connect_def Let_def split: prod.splits option.splits)

lemma connect_polls_bounded:
  "length (filter (\<lambda>e. e = GetClientCapabilities) (fst (connect P t S))) \<le> 10"
proof (cases "transport S = None \<and> connect_error P = None")
  case True
  have z: "filter (\<lambda>e. e = GetClientCapabilities) (snd (fetch_roots P S')) = []"
    "filter (\<lambda>e. e = GetClientCapabilities) (snd (start_ping t S')) = []" for S'
    using fetch_roots_events(1) start_ping_events(1) by (auto simp: filter_empty_conv)
  from poll_capabilities_count [of "getClientCapabilities P" 0 "[]"] True show ?thesis
    by (simp add: connect_unfold Let_def z)
next
  case False
  then show ?thesis by (auto simp: connect_def split: option.splits)
qed

lemma connect_delays: "Delay d \<in> set (fst (connect P t S)) \<Longrightarrow> d = 100"
proof (cases "transport S = None \<and> connect_error P = None")
  case True
  assume "Delay d \<in> set (fst (connect P t S))"
  with True have "Delay d \<in> set (snd (poll_capabilities (getClientCapabilities P) 0 []))"
    using fetch_roots_events(2) start_ping_events(2)
    by (auto simp: connect_unfold Let_def split: if_splits)
  from poll_capabilities_delays [OF this] show ?thesis by simp
next
  case False
  assume "Delay d \<in> set (fst (connect P t S))"
  with False show ?thesis by (auto simp: connect_def split: option.splits)
qed

text \<open>
  Claim C8. When \<open>connect\<close> is called on a session without a transport and the server
  object accepts the transport:
  \<^item> the client capabilities are asked for at most 10 times, and every delay is one of
    100 ms;
  \<^item> \<open>connect\<close> returns normally, with the transport bound, whatever the attempts
    obtain;
  \<^item> if the session has no capabilities yet and none of the 10 attempts obtains any,
    then \<open>connect\<close> asks 10 times, waits 100 ms after each attempt, prints the warning
    and returns normally: the transport is bound, nothing else in the session has
    changed, no roots are fetched and no ping timer is started;
  \<^item> if the attempt number \<open>k\<close> (counted from 0) is the first to obtain capabilities,
    \<open>connect\<close> has waited 100 ms after each of the \<open>k\<close> attempts before it, asks no
    further, and returns with these capabilities and the transport bound.
\<close>

theorem connect_without_capabilities:
  assumes "transport S = None" and "connect_error P = None"
  shows "length (filter (\<lambda>e. e = GetClientCapabilities) (fst (connect P t S))) \<le> 10
       \<and> (\<forall>d. Delay d \<in> set (fst (connect P t S)) \<longrightarrow> d = 100)
       \<and> (\<exists>S'. snd (connect P t S) = Inr S' \<and> transport S' = Some t)
       \<and> (clientCapabilities S = None \<and> (\<forall>k<10. getClientCapabilities P k = None) \<longrightarrow>
            connect P t S =
              (concat (replicate 10 [GetClientCapabilities, Delay 100])
                 @ [ConsoleWarn ''[FastMCP warning] could not infer client capabilities''],
               Inr (S\<lparr>transport := Some t\<rparr>)))
       \<and> (k < 10 \<and> getClientCapabilities P k = Some c
            \<and> (\<forall>j<k. getClientCapabilities P j = None) \<longrightarrow>
            (\<exists>rest S'. connect P t S =
                (concat (replicate k [GetClientCapabilities, Delay 100])
                   @ [GetClientCapabilities] @ rest, Inr S')
              \<and> GetClientCapabilities \<notin> set rest \<and> (\<forall>d. Delay d \<notin> set rest)
              \<and> clientCapabilities S' = Some c \<and> transport S' = Some t))"
proof (intro conjI impI allI)
  show "length (filter (\<lambda>e. e = GetClientCapabilities) (fst (connect P t S))) \<le> 10"
    by (rule connect_polls_bounded)
next
  fix d assume "Delay d \<in> set (fst (connect P t S))"
  then show "d = 100" by (rule connect_delays)
next
  show "\<exists>S'. snd (connect P t S) = Inr S' \<and> transport S' = Some t"
    unfolding connect_unfold [OF assms]
    by (simp add: Let_def start_ping_def fetch_roots_def split: option.splits roots_reply.splits)
next
  assume a: "clientCapabilities S = None \<and> (\<forall>k<10. getClientCapabilities P k = None)"
  then have p: "poll_capabilities (getClientCapabilities P) 0 [] =
      (None, concat (replicate 10 [GetClientCapabilities, Delay 100]))"
    using poll_capabilities_exhausted [of "getClientCapabilities P" 0 "[]"] by simp
  from a show "connect P t S =
              (concat (replicate 10 [GetClientCapabilities, Delay 100])
                 @ [ConsoleWarn ''[FastMCP warning] could not infer client capabilities''],
               Inr (S\<lparr>transport := Some t\<rparr>))"
    unfolding connect_unfold [OF assms] p
    by (simp add: Let_def fetch_roots_def roots_listChanged_def start_ping_def)
next
  assume a: "k < 10 \<and> getClientCapabilities P k = Some c
            \<and> (\<forall>j<k. getClientCapabilities P j = None)"
  then have p: "poll_capabilities (getClientCapabilities P) 0 [] =
      (Some c, concat (replicate k [GetClientCapabilities, Delay 100]) @ [GetClientCapabilities])"
    using poll_capabilities_found [of "getClientCapabilities P" 0 k c "[]"] by simp
  let ?S2 = "S\<lparr>transport := Some t, clientCapabilities := Some c\<rparr>"
  let ?S3 = "fst (fetch_roots P ?S2)"
  let ?rest = "snd (fetch_roots P ?S2) @ snd (start_ping t ?S3)"
  have c: "connect P t S =
      (concat (replicate k [GetClientCapabilities, Delay 100]) @ [GetClientCapabilities] @ ?rest,
       Inr (fst (start_ping t ?S3)))"
    unfolding connect_unfold [OF assms] p by (simp add: Let_def)
  have r: "GetClientCapabilities \<notin> set ?rest" "\<forall>d. Delay d \<notin> set ?rest"
    using fetch_roots_events start_ping_events by auto
  have s3: "clientCapabilities ?S3 = Some c" "transport ?S3 = Some t"
    by (simp_all add: fetch_roots_def split: roots_reply.splits)
  have s4: "clientCapabilities (fst (start_ping t ?S3)) = Some c"
    "transport (fst (start_ping t ?S3)) = Some t"
    using s3 by (simp_all add: start_ping_def)
  from c r s4
  show "\<exists>rest S'. connect P t S =
                (concat (replicate k [GetClientCapabilities, Delay 100])
                   @ [GetClientCapabilities] @ rest, Inr S')
              \<and> GetClientCapabilities \<notin> set rest \<and> (\<forall>d. Delay d \<notin> set rest)
              \<and> clientCapabilities S' = Some c \<and> transport S' = Some t"
    by blast
qed


theorem connect_without_capabilities_witness:
  "transport (session_with_tools []) = None
   \<and> connect_error silent_peer = None
   \<and> clientCapabilities (session_with_tools []) = None
   \<and> getClientCapabilities silent_peer = (\<lambda>k. None)
   \<and> connect silent_peer sse_transport (session_with_tools []) =
       (concat (replicate 10 [GetClientCapabilities, Delay 100])
          @ [ConsoleWarn ''[FastMCP warning] could not infer client capabilities''],
        Inr ((session_with_tools [])\<lparr>transport := Some sse_transport\<rparr>))
   \<and> length (filter (\<lambda>e. e = GetClientCapabilities)
               (fst (connect silent_peer sse_transport (session_with_tools [])))) \<le> 10"
proof -
  have t: "transport (session_with_tools []) = None"
    by (simp add: session_with_tools_def FastMCPSession_def)
  have e: "connect_error silent_peer = None" by (simp add: silent_peer_def)
  have c: "clientCapabilities (session_with_tools []) = None"
    by (simp add: session_with_tools_def FastMCPSession_def)
  have g: "\<forall>k<10. getClientCapabilities silent_peer k = None" by (simp add: silent_peer_def)
  have g': "getClientCapabilities silent_peer = (\<lambda>k. None)" by (simp add: silent_peer_def)
  from connect_without_capabilities [OF t e, of sse_transport 0 JNull] t e c g g'
  show ?thesis by blast
qed

section \<open>Answers to get-prompt requests\<close>

lemma input_prompts_FastMCPSession:
  "input_prompts (FastMCPSession L a ping ps rs ts tls) = ps"
  by (simp add: FastMCPSession_def)

lemma find_missing_None:
  "(find (missing args) as = None) =
     (\<forall>arg\<in>set as. arg_required arg \<longrightarrow> (\<exists>kvs. args = Some kvs \<and> js_in (arg_name arg) kvs))"
  by (cases args) (auto simp: find_None_iff missing_def)

lemma js_in_own: "name \<in> fst ` set kvs \<Longrightarrow> js_in name kvs"
  by (simp add: js_in_def)

text \<open>
  What the handler answers, for every request. The test for a missing argument is
  \<open>arg.name in args\<close>: the request is refused only if the name of a required argument
  is neither among the supplied arguments nor the name of a property of
  \<open>Object.prototype\<close>.
\<close>

lemma get_prompt_answers:
  "(find (\<lambda>p. prompt_name p = gp_name req) (input_prompts S) = Some p
      \<and> (\<forall>arg\<in>set (arguments_of p).
            arg_required arg \<longrightarrow>
              (\<exists>kvs. gp_arguments req = Some kvs \<and> arg_name arg \<in> fst ` set kvs))
      \<and> prompt_load p (gp_arguments req) = Inr produced \<longrightarrow>
      dispatch L S (GetPrompt req) =
        (S, Prompt (Inr \<lparr>result_description = prompt_description p,
                         messages = [\<lparr>message_text = produced, message_type = ''text'',
                                      message_role = ''user''\<rparr>]\<rparr>)))
   \<and> (find (\<lambda>p. prompt_name p = gp_name req) (input_prompts S) = Some p
      \<and> (\<exists>arg\<in>set (arguments_of p).
            arg_required arg \<and>
              \<not> (\<exists>kvs. gp_arguments req = Some kvs \<and> js_in (arg_name arg) kvs)) \<longrightarrow>
      (\<exists>arg\<in>set (arguments_of p).
         dispatch L S (GetPrompt req) =
           (S, Prompt (Inl (McpError InvalidRequest
                             (''Missing required argument: '' @ arg_name arg) JUndefined))))
      \<and> reply_error_code (snd (dispatch L S (GetPrompt req))) = Some InvalidRequest)
   \<and> ((\<forall>q\<in>set (input_prompts S). prompt_name q \<noteq> gp_name req) \<longrightarrow>
      reply_error_code (snd (dispatch L S (GetPrompt req))) = Some MethodNotFound)"
proof (intro conjI impI)
  assume a: "find (\<lambda>p. prompt_name p = gp_name req) (input_prompts S) = Some p
      \<and> (\<forall>arg\<in>set (arguments_of p).
            arg_required arg \<longrightarrow>
              (\<exists>kvs. gp_arguments req = Some kvs \<and> arg_name arg \<in> fst ` set kvs))
      \<and> prompt_load p (gp_arguments req) = Inr produced"
  then have ne: "input_prompts S \<noteq> []" by auto
  from a have m: "find (missing (gp_arguments req)) (arguments_of p) = None"
    unfolding find_missing_None using js_in_own by blast
  from a ne m show "dispatch L S (GetPrompt req) =
        (S, Prompt (Inr \<lparr>result_description = prompt_description p,
                         messages = [\<lparr>message_text = produced, message_type = ''text'',
                                      message_role = ''user''\<rparr>]\<rparr>))"
    by (simp add: dispatch_def getPrompt_def)
next
  assume a: "find (\<lambda>p. prompt_name p = gp_name req) (input_prompts S) = Some p
      \<and> (\<exists>arg\<in>set (arguments_of p).
            arg_required arg \<and>
              \<not> (\<exists>kvs. gp_arguments req = Some kvs \<and> js_in (arg_name arg) kvs))"
  then have ne: "input_prompts S \<noteq> []" by auto
  from a have "find (missing (gp_arguments req)) (arguments_of p) \<noteq> None"
    unfolding find_missing_None by blast
  then obtain arg where m: "find (missing (gp_arguments req)) (arguments_of p) = Some arg"
    by auto
  then have mem: "arg \<in> set (arguments_of p)"
    by (auto simp: find_Some_iff)
  from a ne m have d: "dispatch L S (GetPrompt req) =
           (S, Prompt (Inl (McpError InvalidRequest
                             (''Missing required argument: '' @ arg_name arg) JUndefined)))"
    by (simp add: dispatch_def getPrompt_def)
  with mem show "\<exists>arg\<in>set (arguments_of p).
         dispatch L S (GetPrompt req) =
           (S, Prompt (Inl (McpError InvalidRequest
                             (''Missing required argument: '' @ arg_name arg) JUndefined)))"
    by blast
  from d show "reply_error_code (snd (dispatch L S (GetPrompt req))) = Some InvalidRequest"
    by (simp add: reply_error_code_def)
next
  assume "\<forall>q\<in>set (input_prompts S). prompt_name q \<noteq> gp_name req"
  then have "find (\<lambda>p. prompt_name p = gp_name req) (input_prompts S) = None"
    by (simp add: find_None_iff)
  then show "reply_error_code (snd (dispatch L S (GetPrompt req))) = Some MethodNotFound"
    by (simp add: dispatch_def getPrompt_def reply_error_code_def)
qed

text \<open>The round trip of the prompt \<open>git-commit\<close> with its required argument \<open>changes\<close>.\<close>

lemma get_prompt_git_commit:
  "dispatch example_libs (session_with_prompts [git_commit])
        (GetPrompt \<lparr>gp_name = ''git-commit'', gp_arguments = Some [(''changes'', ''x'')]\<rparr>)
       = (session_with_prompts [git_commit],
          Prompt (Inr \<lparr>result_description = JStr ''Generate a Git commit message'',
                       messages =
                         [\<lparr>message_text =
                             ''Generate a concise but descriptive commit message for these changes: x'',
                           message_type = ''text'', message_role = ''user''\<rparr>]\<rparr>))
   \<and> reply_error_code
        (snd (dispatch example_libs (session_with_prompts [git_commit])
               (GetPrompt \<lparr>gp_name = ''git-commit'', gp_arguments = Some []\<rparr>)))
       = Some InvalidRequest
   \<and> reply_error_code
        (snd (dispatch example_libs (session_with_prompts [git_commit])
               (GetPrompt \<lparr>gp_name = ''git-tag'', gp_arguments = Some []\<rparr>)))
       = Some MethodNotFound"
  by (simp add: dispatch_def getPrompt_def session_with_prompts_def FastMCPSession_def
        git_commit_def arguments_of_def missing_def js_in_def Object_prototype_def
        reply_error_code_def)

text \<open>
  Claim C9. The prompt \<open>describe\<close> marks its argument \<open>toString\<close> as required. A
  get-prompt request for it that supplies no argument at all (\<open>arguments: {}\<close>) is not
  refused with \<open>InvalidRequest\<close>: \<open>"toString" in args\<close> is true for every object, so
  the handler takes the argument as supplied, invokes the load function and answers
  with the message it produces.
\<close>

theorem inherited_name_counts_as_supplied:
  "map (\<lambda>arg. (arg_name arg, arg_required arg)) (arguments_of describe) = [(''toString'', True)]
   \<and> dispatch example_libs (session_with_prompts [describe])
        (GetPrompt \<lparr>gp_name = ''describe'', gp_arguments = Some []\<rparr>)
       = (session_with_prompts [describe],
          Prompt (Inr \<lparr>result_description = JStr ''Describes a value'',
                       messages = [\<lparr>message_text = ''Describe the value'',
                                    message_type = ''text'', message_role = ''user''\<rparr>]\<rparr>))
   \<and> reply_error_code
        (snd (dispatch example_libs (session_with_prompts [describe])
               (GetPrompt \<lparr>gp_name = ''describe'', gp_arguments = Some []\<rparr>)))
       \<noteq> Some InvalidRequest"
  by (simp add: dispatch_def getPrompt_def session_with_prompts_def FastMCPSession_def
        describe_def arguments_of_def missing_def js_in_def Object_prototype_def
        reply_error_code_def)

section \<open>Calling a tool that has no parameters\<close>

text \<open>
  Claim C10. For the tool \<open>t\<close> registered under the requested name, if it was
  registered without a \<open>parameters\<close> schema, then whatever \<open>arguments\<close> the client
  supplies: the request is answered by the tool handler and leaves the session as it
  was; \<open>execute\<close> is invoked exactly once, with \<open>undefined\<close> as its argument value;
  what is sent to the client and what is answered are what this invocation
  \<open>execute(undefined, context)\<close> emits and settles with (under the timeout of the tool,
  if it has one); so the whole run is the one of the same request without arguments,
  the supplied ones are dropped, and the answer is never the \<open>InvalidParams\<close> error of
  argument validation.
\<close>

theorem call_tool_without_parameters:
  assumes "find (\<lambda>t. tool_name t = req_name req) (tools S) = Some t"
    and "parameters t = None"
  shows "\<exists>run. dispatch L S (CallTool (req\<lparr>req_arguments := supplied\<rparr>)) = (S, ToolRun run)
           \<and> invoked_with run = [JUndefined]
           \<and> sent run = map (\<lambda>(at, e). (at, forward (req_progressToken req) e))
                            (emits (execute t JUndefined (auth S)))
           \<and> (response run, responded_at run) =
               (case await_execution L (timeoutMs t) (execute t JUndefined (auth S)) of
                  None \<Rightarrow> (None, None)
                | Some (at, Throws e) \<Rightarrow> (Some (Inr (catch_tool_error e)), Some at)
                | Some (at, Returns v) \<Rightarrow>
                    (Some (Inr (case normalize_result L v of
                                  Inl e \<Rightarrow> catch_tool_error e
                                | Inr r \<Rightarrow> r)), Some at))
           \<and> run = callTool L (auth S) (tools S) (req\<lparr>req_arguments := JUndefined\<rparr>)
           \<and> reply_error_code (ToolRun run) \<noteq> Some InvalidParams"
proof -
  from assms(1) have ne: "tools S \<noteq> []" by auto
  have args: "tool_args t rq = Inr JUndefined" for rq
    using assms(2) by (simp add: tool_args_def)
  show ?thesis
    using assms(1) ne args
    by (auto simp: dispatch_def callTool_def reply_error_code_def Let_def
             split: option.splits outcome.splits prod.splits sum.splits)
qed

theorem call_tool_without_parameters_witness:
  "find (\<lambda>t. tool_name t = req_name (call ''echo'' JUndefined)) (tools (session_with_tools [echo]))
     = Some echo
   \<and> parameters echo = None
   \<and> settles (execute echo JUndefined JUndefined) = Some (0, Returns (JStr ''nothing''))
   \<and> settles (execute echo (JObj [(''a'', JNum 1)]) JUndefined)
       = Some (0, Returns (JStr ''something''))
   \<and> (\<exists>run. dispatch example_libs (session_with_tools [echo])
               (CallTool (call ''echo'' (JObj [(''a'', JNum 1)])))
             = (session_with_tools [echo], ToolRun run)
            \<and> invoked_with run = [JUndefined]
            \<and> sent run = []
            \<and> response run = Some (Inr \<lparr>content = [TextContent ''nothing''], isError = None\<rparr>))"
proof -
  have f: "find (\<lambda>t. tool_name t = req_name (call ''echo'' JUndefined))
             (tools (session_with_tools [echo])) = Some echo"
    by (simp add: call_def echo_def)
  have p: "parameters echo = None" by (simp add: echo_def)
  have u: "(call ''echo'' JUndefined)\<lparr>req_arguments := JObj [(''a'', JNum 1)]\<rparr>
             = call ''echo'' (JObj [(''a'', JNum 1)])"
    by (simp add: call_def)
  have s: "settles (execute echo JUndefined JUndefined) = Some (0, Returns (JStr ''nothing''))"
    "settles (execute echo (JObj [(''a'', JNum 1)]) JUndefined)
       = Some (0, Returns (JStr ''something''))"
    "emits (execute echo JUndefined JUndefined) = []"
    "timeoutMs echo = None"
    by (simp_all add: echo_def)
  have n: "normalize_result example_libs (JStr ''nothing'')
             = Inr \<lparr>content = [TextContent ''nothing''], isError = None\<rparr>"
    by (simp add: normalize_result_def ContentResultZodSchema_parse_def parse_content_def
          only_keys_def)
  from call_tool_without_parameters [OF f p, of example_libs "JObj [(''a'', JNum 1)]"]
  obtain run where
    d: "dispatch example_libs (session_with_tools [echo])
          (CallTool (call ''echo'' (JObj [(''a'', JNum 1)])))
        = (session_with_tools [echo], ToolRun run)"
    and i: "invoked_with run = [JUndefined]"
    and e: "sent run = []"
    and r: "(response run, responded_at run) =
              (Some (Inr \<lparr>content = [TextContent ''nothing''], isError = None\<rparr>), Some 0)"
    unfolding u by (auto simp: s n await_execution_def)
  from f p s(1,2) d i e r show ?thesis by auto
qed

end
